theory Spec2Isabelle
  imports
    Complex_Main
    "HOL-Library.Sublist"
    "HOL-Library.Multiset"
    "HOL-Library.Option_ord"
    "HOL-Library.Product_Lexorder"
    "HOL-Library.Char_ord"
    "HOL-Library.List_Lexorder"
begin

section \<open>HappyRepair: the schema, its triggers, the proximity search and the API routes\<close>

text \<open>
  The development embeds \<^verbatim>\<open>backend/src/database/schema/schema.sql\<close> (tables, the two
  triggers on mechanics and reviews, the function \<^verbatim>\<open>find_mechanics_within_radius\<close>) and the
  route handlers of \<^verbatim>\<open>backend/src/api/routes/mechanics.ts\<close> and \<^verbatim>\<open>services.ts\<close>, with
  the handler of \<^verbatim>\<open>GET /api/mechanics/nearby\<close> in the \<^verbatim>\<open>src/server.ts\<close> that the backend's
  setup script writes.

  Conventions.
  \<^item> A table is the list of its rows, a row is a record of the columns the queries read
    (columns that no query of the development reads or writes are left out).
  \<^item> A nullable column is an \<open>option\<close>; \<open>None\<close> is SQL NULL. A WHERE clause keeps a row
    only when its condition is true, so \<open>col = true\<close> is \<open>col = Some True\<close>.
  \<^item> \<^verbatim>\<open>DECIMAL\<close>/\<^verbatim>\<open>numeric\<close> values are rationals. PostGIS distances and JavaScript
    numbers are IEEE doubles in the running system; here they are exact rationals, so
    binary rounding of a double is not part of the model.
  \<^item> An \<^verbatim>\<open>UUID\<close> is written as its text.
  \<^item> A text is the list of its bytes in UTF-8.
\<close>

subsection \<open>Tables\<close>

type_synonym uuid = string

text \<open>\<^verbatim>\<open>GEOGRAPHY(POINT, 4326)\<close>: a point with x = longitude, y = latitude.\<close>

datatype geography = Point rat rat

record mechanic =
  m_id :: uuid
  m_business_name :: string
  m_latitude :: "rat option"
  m_longitude :: "rat option"
  m_location :: "geography option"
  m_rating :: "rat option"
  m_review_count :: "int option"
  m_is_verified :: "bool option"
  m_is_active :: "bool option"

record service =
  s_id :: uuid
  s_name :: string
  s_category :: "string option"
  s_description :: "string option"
  s_estimated_duration :: "int option"
  s_is_active :: "bool option"

record service_translation =
  st_service_id :: uuid
  st_language_code :: string
  st_name :: string
  st_description :: "string option"

record mechanic_service =
  ms_mechanic_id :: uuid
  ms_service_id :: uuid
  ms_min_price :: rat
  ms_max_price :: rat
  ms_is_available :: "bool option"

record review =
  rv_id :: uuid
  rv_mechanic_id :: uuid
  rv_rating :: int
  rv_is_published :: "bool option"

record database =
  mechanics :: "mechanic list"
  services :: "service list"
  service_translations :: "service_translation list"
  mechanic_services :: "mechanic_service list"
  reviews :: "review list"

definition empty_database :: database where
  "empty_database =
     \<lparr>mechanics = [], services = [], service_translations = [],
      mechanic_services = [], reviews = []\<rparr>"

subsection \<open>SQL built-ins\<close>

definition sql_is_true :: "bool option \<Rightarrow> bool" where
  "sql_is_true b = (b = Some True)"

text \<open>\<^verbatim>\<open>ROUND(x::numeric, s)\<close>: to \<open>s\<close> decimal places, ties away from zero.\<close>

definition sql_round :: "rat \<Rightarrow> nat \<Rightarrow> rat" where
  "sql_round x s = sgn x * of_int \<lfloor>\<bar>x\<bar> * 10 ^ s + 1 / 2\<rfloor> / 10 ^ s"

text \<open>
  \<^verbatim>\<open>AVG\<close> over an integer column: NULL over no rows, else the mean (exact here;
  PostgreSQL computes it to at least 16 significant digits).
\<close>

definition sql_avg :: "int list \<Rightarrow> rat option" where
  "sql_avg xs = (if xs = [] then None else Some (of_int (sum_list xs) / of_nat (length xs)))"

text \<open>\<^verbatim>\<open>MIN\<close> and \<^verbatim>\<open>MAX\<close> over a NOT NULL column: NULL over no rows.\<close>

fun sql_min :: "rat list \<Rightarrow> rat option" where
  "sql_min [] = None"
| "sql_min (x # xs) = Some (fold min xs x)"

fun sql_max :: "rat list \<Rightarrow> rat option" where
  "sql_max [] = None"
| "sql_max (x # xs) = Some (fold max xs x)"

definition ST_MakePoint :: "rat \<Rightarrow> rat \<Rightarrow> geography" where
  "ST_MakePoint x y = Point x y"

subsection \<open>Trigger \<^verbatim>\<open>update_mechanic_location\<close> (BEFORE INSERT OR UPDATE ON mechanics)\<close>

definition update_mechanic_location :: "mechanic \<Rightarrow> mechanic" where
  "update_mechanic_location NEW =
     (case (m_latitude NEW, m_longitude NEW) of
        (Some lat, Some lng) \<Rightarrow> NEW\<lparr>m_location := Some (ST_MakePoint lng lat)\<rparr>
      | _ \<Rightarrow> NEW)"

text \<open>
  \<^verbatim>\<open>INSERT INTO mechanics (id, business_name, latitude, longitude) VALUES (...)\<close>: the
  columns the statement does not name take their declared defaults
  (\<^verbatim>\<open>rating DECIMAL(3,2) DEFAULT 0.0\<close>, \<^verbatim>\<open>review_count INTEGER DEFAULT 0\<close>,
  \<^verbatim>\<open>is_verified BOOLEAN DEFAULT false\<close>, \<^verbatim>\<open>is_active BOOLEAN DEFAULT true\<close>, no default
  for \<^verbatim>\<open>location\<close>), then the BEFORE INSERT trigger runs.
\<close>

definition mechanic_defaults :: "uuid \<Rightarrow> string \<Rightarrow> rat option \<Rightarrow> rat option \<Rightarrow> mechanic" where
  "mechanic_defaults i n lat lng =
     \<lparr>m_id = i, m_business_name = n, m_latitude = lat, m_longitude = lng,
      m_location = None, m_rating = Some 0, m_review_count = Some 0,
      m_is_verified = Some False, m_is_active = Some True\<rparr>"

definition insert_mechanic :: "database \<Rightarrow> mechanic \<Rightarrow> database" where
  "insert_mechanic db NEW = db\<lparr>mechanics := mechanics db @ [update_mechanic_location NEW]\<rparr>"

subsection \<open>Trigger \<^verbatim>\<open>update_mechanic_rating\<close> (AFTER INSERT OR UPDATE ON reviews)\<close>

definition published_reviews :: "database \<Rightarrow> uuid \<Rightarrow> review list" where
  "published_reviews db mid =
     filter (\<lambda>r. rv_mechanic_id r = mid \<and> sql_is_true (rv_is_published r)) (reviews db)"

text \<open>
  The trigger's \<^verbatim>\<open>UPDATE mechanics SET rating = (SELECT ROUND(AVG(rating)::numeric, 2) ...),
  review_count = (SELECT COUNT(*) ...) WHERE id = NEW.mechanic_id\<close>. The UPDATE fires the
  BEFORE UPDATE trigger of mechanics on each row it changes.
\<close>

definition update_mechanic_rating :: "database \<Rightarrow> review \<Rightarrow> database" where
  "update_mechanic_rating db NEW =
     (let published = published_reviews db (rv_mechanic_id NEW) in
      db\<lparr>mechanics :=
           map (\<lambda>m. if m_id m = rv_mechanic_id NEW
                     then update_mechanic_location
                            (m\<lparr>m_rating := map_option (\<lambda>a. sql_round a 2)
                                             (sql_avg (map rv_rating published)),
                               m_review_count := Some (int (length published))\<rparr>)
                     else m)
               (mechanics db)\<rparr>)"

datatype sql_error = CheckViolation | ForeignKeyViolation | UniqueViolation

text \<open>
  \<^verbatim>\<open>INSERT INTO reviews\<close>: the row constraints
  (\<^verbatim>\<open>CHECK (rating >= 1 AND rating <= 5)\<close>, the primary key, the reference to mechanics),
  then the AFTER INSERT trigger with the new row.
\<close>

definition insert_review :: "database \<Rightarrow> review \<Rightarrow> sql_error + database" where
  "insert_review db NEW =
     (if rv_rating NEW < 1 then Inl CheckViolation
      else if 5 < rv_rating NEW then Inl CheckViolation
      else if rv_id NEW \<in> set (map rv_id (reviews db)) then Inl UniqueViolation
      else if rv_mechanic_id NEW \<in> set (map m_id (mechanics db))
      then Inr (update_mechanic_rating (db\<lparr>reviews := reviews db @ [NEW]\<rparr>) NEW)
      else Inl ForeignKeyViolation)"

text \<open>
  \<^verbatim>\<open>UPDATE reviews SET ... WHERE id = ...\<close>: the row with the id of \<open>NEW\<close>, if there is
  one, becomes \<open>NEW\<close> under the same constraints, and the AFTER UPDATE trigger runs for it.
\<close>

definition update_review :: "database \<Rightarrow> review \<Rightarrow> sql_error + database" where
  "update_review db NEW =
     (if rv_id NEW \<in> set (map rv_id (reviews db)) then
        (if rv_rating NEW < 1 then Inl CheckViolation
         else if 5 < rv_rating NEW then Inl CheckViolation
         else if rv_mechanic_id NEW \<in> set (map m_id (mechanics db))
         then Inr (update_mechanic_rating
                     (db\<lparr>reviews := map (\<lambda>r. if rv_id r = rv_id NEW then NEW else r)
                                        (reviews db)\<rparr>) NEW)
         else Inl ForeignKeyViolation)
      else Inr db)"

text \<open>The mechanic row with a given id (the primary key), if any.\<close>

definition mechanic_of :: "database \<Rightarrow> uuid \<Rightarrow> mechanic option" where
  "mechanic_of db mid = find (\<lambda>m. m_id m = mid) (mechanics db)"


subsection \<open>\<^verbatim>\<open>ILIKE\<close>\<close>

text \<open>
  \<^verbatim>\<open>text ILIKE pattern\<close> is \<^verbatim>\<open>LIKE\<close> after folding the case of both sides. In a pattern
  \<^verbatim>\<open>%\<close> stands for any run of characters, \<^verbatim>\<open>_\<close> for any one character, and a backslash
  makes the character after it stand for itself. Case folding is that of the ASCII
  letters (strings are byte strings here).
\<close>

definition ascii_lower :: "char \<Rightarrow> char" where
  "ascii_lower c =
     (if CHR ''A'' \<le> c \<and> c \<le> CHR ''Z'' then char_of (of_char c + (32 :: nat)) else c)"

definition lower :: "string \<Rightarrow> string" where
  "lower s = map ascii_lower s"

text \<open>
  \<open>like_match pattern text\<close>. A pattern that ends in a lone backslash is an error in
  PostgreSQL; it matches nothing here (the search builds its patterns with a final
  \<^verbatim>\<open>%\<close>, so none of them ends that way).
\<close>

fun like_match :: "string \<Rightarrow> string \<Rightarrow> bool" where
  "like_match [] t = (t = [])"
| "like_match (p # ps) t =
     (if p = CHR ''%'' then
        like_match ps t \<or> (case t of [] \<Rightarrow> False | c # cs \<Rightarrow> like_match (p # ps) cs)
      else if p = CHR ''_'' then
        (case t of [] \<Rightarrow> False | c # cs \<Rightarrow> like_match ps cs)
      else if p = CHR 0x5C then
        (case ps of
           [] \<Rightarrow> False
         | q # qs \<Rightarrow> (case t of [] \<Rightarrow> False | c # cs \<Rightarrow> q = c \<and> like_match qs cs))
      else
        (case t of [] \<Rightarrow> False | c # cs \<Rightarrow> p = c \<and> like_match ps cs))"

definition ilike :: "string \<Rightarrow> string \<Rightarrow> bool" where
  "ilike t pattern = like_match (lower pattern) (lower t)"

text \<open>The characters \<^verbatim>\<open>LIKE\<close> reads as part of the pattern language.\<close>

definition like_special :: "char \<Rightarrow> bool" where
  "like_special c = (c = CHR ''%'' \<or> c = CHR ''_'' \<or> c = CHR 0x5C)"

definition plain_filter :: "string \<Rightarrow> bool" where
  "plain_filter f = (filter like_special f = [])"

subsection \<open>Function \<^verbatim>\<open>find_mechanics_within_radius\<close>\<close>

text \<open>
  PostGIS is not part of the repository. Its distance between two geography points, in
  meters, is the parameter \<open>geodesic\<close> of the model; \<^verbatim>\<open>ST_Distance\<close> returns it and
  \<^verbatim>\<open>ST_DWithin(a, b, d)\<close> holds when it is at most \<open>d\<close>. Both are NULL on a NULL point.
\<close>

definition ST_Distance ::
  "(geography \<Rightarrow> geography \<Rightarrow> rat) \<Rightarrow> geography option \<Rightarrow> geography option \<Rightarrow> rat option" where
  "ST_Distance geodesic a b =
     (case a of None \<Rightarrow> None
      | Some p \<Rightarrow> (case b of None \<Rightarrow> None | Some q \<Rightarrow> Some (geodesic p q)))"

definition ST_DWithin ::
  "(geography \<Rightarrow> geography \<Rightarrow> rat) \<Rightarrow> geography option \<Rightarrow> geography option \<Rightarrow> rat
     \<Rightarrow> bool option" where
  "ST_DWithin geodesic a b d = map_option (\<lambda>x. x \<le> d) (ST_Distance geodesic a b)"

record nearby_row =
  row_id :: uuid
  row_business_name :: string
  distance_miles :: "rat option"
  row_rating :: "rat option"
  min_price :: "rat option"
  max_price :: "rat option"

text \<open>
  \<^verbatim>\<open>FROM mechanics m JOIN mechanic_services ms ON m.id = ms.mechanic_id
  JOIN services s ON ms.service_id = s.id\<close>
\<close>

definition joined_rows :: "database \<Rightarrow> (mechanic \<times> mechanic_service \<times> service) list" where
  "joined_rows db =
     [(m, ms, s). m \<leftarrow> mechanics db, ms \<leftarrow> mechanic_services db, m_id m = ms_mechanic_id ms,
                  s \<leftarrow> services db, ms_service_id ms = s_id s]"

definition where_clause ::
  "(geography \<Rightarrow> geography \<Rightarrow> rat) \<Rightarrow> rat \<Rightarrow> rat \<Rightarrow> int \<Rightarrow> string option
     \<Rightarrow> mechanic \<times> mechanic_service \<times> service \<Rightarrow> bool" where
  "where_clause geodesic search_lat search_lng radius_miles service_filter row =
     (case row of (m, ms, s) \<Rightarrow>
        sql_is_true (m_is_active m)
        \<and> sql_is_true (m_is_verified m)
        \<and> sql_is_true (ms_is_available ms)
        \<and> sql_is_true
             (ST_DWithin geodesic (m_location m) (Some (ST_MakePoint search_lng search_lat))
                (of_int radius_miles * 1609.34))
        \<and> (case service_filter of
             None \<Rightarrow> True
           | Some f \<Rightarrow> ilike (s_name s) (''%'' @ f @ ''%'')))"

text \<open>\<^verbatim>\<open>GROUP BY m.id, m.business_name, m.location, m.rating\<close>\<close>

type_synonym group_key = "uuid \<times> string \<times> geography option \<times> rat option"

definition group_key :: "mechanic \<Rightarrow> group_key" where
  "group_key m = (m_id m, m_business_name m, m_location m, m_rating m)"

definition row_key :: "mechanic \<times> mechanic_service \<times> service \<Rightarrow> group_key" where
  "row_key row = (case row of (m, ms, s) \<Rightarrow> group_key m)"

definition row_offer :: "mechanic \<times> mechanic_service \<times> service \<Rightarrow> mechanic_service" where
  "row_offer row = (case row of (m, ms, s) \<Rightarrow> ms)"

text \<open>The select list, over the rows of one group.\<close>

definition select_row ::
  "(geography \<Rightarrow> geography \<Rightarrow> rat) \<Rightarrow> rat \<Rightarrow> rat
     \<Rightarrow> (mechanic \<times> mechanic_service \<times> service) list \<Rightarrow> group_key \<Rightarrow> nearby_row" where
  "select_row geodesic search_lat search_lng selected g =
     (case g of (i, n, loc, r) \<Rightarrow>
        (let members = filter (\<lambda>row. row_key row = g) selected in
         \<lparr>row_id = i,
          row_business_name = n,
          distance_miles =
            map_option (\<lambda>d. sql_round (d * 0.000621371) 2)
              (ST_Distance geodesic loc (Some (ST_MakePoint search_lng search_lat))),
          row_rating = r,
          min_price = sql_min (map (ms_min_price \<circ> row_offer) members),
          max_price = sql_max (map (ms_max_price \<circ> row_offer) members)\<rparr>))"

text \<open>\<^verbatim>\<open>ORDER BY x ASC\<close> puts NULL after every value.\<close>

definition nulls_last :: "'a option \<Rightarrow> bool \<times> 'a option" where
  "nulls_last x = (x = None, x)"

text \<open>
  \<^verbatim>\<open>ORDER BY distance_miles ASC\<close>: the name is the select list's alias, the rounded
  distance. PostgreSQL leaves the order of rows with equal keys open; the model keeps
  them in the order the groups were formed (a stable sort). The arguments are not
  NULL: \<open>search_lat\<close>, \<open>search_lng\<close> and \<open>radius_miles\<close> are numbers, and a
  \<open>service_filter\<close> of \<open>None\<close> is the parameter's default, NULL.
\<close>

definition find_mechanics_within_radius ::
  "(geography \<Rightarrow> geography \<Rightarrow> rat) \<Rightarrow> database \<Rightarrow> rat \<Rightarrow> rat \<Rightarrow> int \<Rightarrow> string option
     \<Rightarrow> nearby_row list" where
  "find_mechanics_within_radius geodesic db search_lat search_lng radius_miles service_filter =
     (let selected =
            filter (where_clause geodesic search_lat search_lng radius_miles service_filter)
              (joined_rows db);
          groups = remdups (map row_key selected)
      in sort_key (\<lambda>r. nulls_last (distance_miles r))
           (map (select_row geodesic search_lat search_lng selected) groups))"


subsection \<open>JavaScript built-ins the routes call\<close>

text \<open>
  A JavaScript number: not-a-number, an infinity, or a finite value. Finite values are
  exact rationals (a double's rounding, and its overflow to an infinity past about
  1.8e308, are not modelled).
\<close>

datatype jsnum = NaN | Num rat | PosInfinity | NegInfinity

text \<open>
  The white space and line terminators that \<^verbatim>\<open>parseInt\<close> and \<^verbatim>\<open>parseFloat\<close> skip at the
  start of a text. In one byte: space, tab, line feed, vertical tab, form feed,
  carriage return. In two or three bytes of UTF-8: U+00A0, U+1680, U+2000 to U+200A,
  U+2028, U+2029, U+202F, U+205F, U+3000 and U+FEFF.
\<close>

definition is_js_space :: "char \<Rightarrow> bool" where
  "is_js_space c = (c \<in> set [CHR '' '', CHR 0x09, CHR 0x0A, CHR 0x0B, CHR 0x0C, CHR 0x0D])"

definition is_js_space3 :: "char \<Rightarrow> char \<Rightarrow> char \<Rightarrow> bool" where
  "is_js_space3 c d e =
     ([c, d, e] \<in> set [[CHR 0xE1, CHR 0x9A, CHR 0x80], [CHR 0xE2, CHR 0x80, CHR 0xA8],
                        [CHR 0xE2, CHR 0x80, CHR 0xA9], [CHR 0xE2, CHR 0x80, CHR 0xAF],
                        [CHR 0xE2, CHR 0x81, CHR 0x9F], [CHR 0xE3, CHR 0x80, CHR 0x80],
                        [CHR 0xEF, CHR 0xBB, CHR 0xBF]]
      \<or> (c = CHR 0xE2 \<and> d = CHR 0x80 \<and> CHR 0x80 \<le> e \<and> e \<le> CHR 0x8A))"

fun skip_js_space :: "string \<Rightarrow> string" where
  "skip_js_space [] = []"
| "skip_js_space (c # cs) =
     (if is_js_space c then skip_js_space cs
      else
        (case cs of
           [] \<Rightarrow> c # cs
         | d # ds \<Rightarrow>
             (if c = CHR 0xC2 \<and> d = CHR 0xA0 then skip_js_space ds
              else
                (case ds of
                   [] \<Rightarrow> c # cs
                 | e # es \<Rightarrow> if is_js_space3 c d e then skip_js_space es else c # cs))))"

definition is_digit :: "char \<Rightarrow> bool" where
  "is_digit c = (CHR ''0'' \<le> c \<and> c \<le> CHR ''9'')"

definition digits_val :: "string \<Rightarrow> nat" where
  "digits_val ds = fold (\<lambda>c a. 10 * a + (of_char c - 48)) ds 0"

text \<open>An optional sign: whether it is a minus, and the rest of the text.\<close>

fun js_sign :: "string \<Rightarrow> bool \<times> string" where
  "js_sign [] = (False, [])"
| "js_sign (c # cs) =
     (if c = CHR ''-'' then (True, cs) else if c = CHR ''+'' then (False, cs) else (False, c # cs))"

text \<open>
  \<^verbatim>\<open>parseInt(text, 10)\<close>: leading white space, an optional sign, then the longest run of
  decimal digits; \<^verbatim>\<open>NaN\<close> when that run is empty.
\<close>

definition parseInt :: "string \<Rightarrow> jsnum" where
  "parseInt s =
     (case js_sign (skip_js_space s) of
        (neg, t) \<Rightarrow>
          (let ds = takeWhile is_digit t in
           if ds = [] then NaN
           else Num (if neg then - of_nat (digits_val ds) else of_nat (digits_val ds))))"

text \<open>
  \<^verbatim>\<open>parseFloat(text)\<close>: leading white space, an optional sign, then the longest prefix
  that is \<^verbatim>\<open>Infinity\<close> or a decimal literal (digits, an optional fraction, an optional
  exponent that has at least one digit); \<^verbatim>\<open>NaN\<close> when there is none.
\<close>

definition parse_exponent :: "string \<Rightarrow> int" where
  "parse_exponent t =
     (case t of
        [] \<Rightarrow> 0
      | c # cs \<Rightarrow>
          (if c = CHR ''e'' \<or> c = CHR ''E'' then
             (case js_sign cs of
                (neg, u) \<Rightarrow>
                  (let n = int (digits_val (takeWhile is_digit u)) in if neg then - n else n))
           else 0))"

definition parseFloat :: "string \<Rightarrow> jsnum" where
  "parseFloat s =
     (case js_sign (skip_js_space s) of
        (neg, t) \<Rightarrow>
          (if take 8 t = ''Infinity'' then (if neg then NegInfinity else PosInfinity)
           else
             (let whole = takeWhile is_digit t;
                  t1 = dropWhile is_digit t;
                  frac = (case t1 of
                            [] \<Rightarrow> []
                          | c # cs \<Rightarrow> if c = CHR ''.'' then takeWhile is_digit cs else []);
                  t2 = (case t1 of
                          [] \<Rightarrow> []
                        | c # cs \<Rightarrow> if c = CHR ''.'' then dropWhile is_digit cs else t1);
                  v = of_nat (digits_val (whole @ frac)) / 10 ^ length frac
                        * 10 powi parse_exponent t2
              in if whole = [] \<and> frac = [] then NaN
                 else Num (if neg then - v else v))))"

text \<open>
  A value of \<^verbatim>\<open>req.query\<close>, which the routes read as text (\<^verbatim>\<open>as string\<close>): absent, or
  a string. A value is falsy when it is absent or the empty string; the text of an
  absent value is \<^verbatim>\<open>undefined\<close>.
\<close>

definition falsy :: "string option \<Rightarrow> bool" where
  "falsy v = (v = None \<or> v = Some [])"

definition to_string :: "string option \<Rightarrow> string" where
  "to_string v = (case v of None \<Rightarrow> ''undefined'' | Some s \<Rightarrow> s)"

subsection \<open>The response of a route\<close>

datatype 'a body = Failure string | Success 'a

datatype 'a response = Response (status: nat) (body: "'a body")

subsection \<open>\<^verbatim>\<open>GET /api/mechanics/nearby\<close>\<close>

record nearby_query =
  latitude :: "string option"
  longitude :: "string option"
  radius :: "string option"

record search_criteria =
  sc_latitude :: jsnum
  sc_longitude :: jsnum
  sc_radius :: jsnum

record 'row nearby_data =
  nd_mechanics :: "'row list"
  searchCriteria :: search_criteria

text \<open>
  \<open>run\<close> is \<^verbatim>\<open>database.query\<close> on the route's statement
  \<^verbatim>\<open>SELECT * FROM find_mechanics_within_radius($1, $2, $3)\<close>: from the parameters to the
  rows, or to the error it throws. The route returns its response and the list of
  parameter lists it gave to \<open>run\<close>, in order (empty when no statement was executed).
  The destructuring default \<^verbatim>\<open>radius = 10\<close> applies when the parameter is absent, and
  \<^verbatim>\<open>parseInt\<close> reads the number 10 as the text \<^verbatim>\<open>10\<close>.
\<close>

definition nearby ::
  "(jsnum list \<Rightarrow> string + 'row list) \<Rightarrow> nearby_query
     \<Rightarrow> 'row nearby_data response \<times> jsnum list list" where
  "nearby run q =
     (if falsy (latitude q) \<or> falsy (longitude q)
      then (Response 400 (Failure ''Latitude and longitude are required''), [])
      else
        (let lat = parseFloat (to_string (latitude q));
             lng = parseFloat (to_string (longitude q));
             rad = parseInt (case radius q of None \<Rightarrow> ''10'' | Some r \<Rightarrow> r)
         in case run [lat, lng, rad] of
              Inl err \<Rightarrow>
                (Response 500 (Failure ''Failed to find nearby mechanics''), [[lat, lng, rad]])
            | Inr rows \<Rightarrow>
                (Response 200
                   (Success
                      \<lparr>nd_mechanics = rows,
                       searchCriteria =
                         \<lparr>sc_latitude = lat, sc_longitude = lng, sc_radius = rad\<rparr>\<rparr>),
                 [[lat, lng, rad]])))"

subsection \<open>\<^verbatim>\<open>GET /api/mechanics/nearby\<close> in the setup script's \<^verbatim>\<open>src/server.ts\<close>\<close>

text \<open>\<^verbatim>\<open>a < b\<close> on JavaScript numbers: false when either side is not a number.\<close>

fun js_less :: "jsnum \<Rightarrow> jsnum \<Rightarrow> bool" where
  "js_less (Num a) (Num b) = (a < b)"
| "js_less NegInfinity (Num b) = True"
| "js_less NegInfinity PosInfinity = True"
| "js_less (Num a) PosInfinity = True"
| "js_less a b = False"

record server_criteria =
  svc_latitude :: jsnum
  svc_longitude :: jsnum
  svc_radius :: jsnum
  svc_unit :: string

record 'row server_nearby_data =
  sv_mechanics :: "'row list"
  sv_searchCriteria :: server_criteria
  sv_count :: nat

text \<open>
  The same endpoint as the script's server defines it: after the check for presence it
  parses, and under the comment \<^verbatim>\<open>Validate parameter ranges\<close> returns 400 when
  \<^verbatim>\<open>lat < -90 || lat > 90 || lng < -180 || lng > 180\<close>, before the statement. (Of an
  error body the message is kept; its fields \<^verbatim>\<open>example\<close> and \<^verbatim>\<open>error\<close> are left out.)
\<close>

definition server_nearby ::
  "(jsnum list \<Rightarrow> string + 'row list) \<Rightarrow> nearby_query
     \<Rightarrow> 'row server_nearby_data response \<times> jsnum list list" where
  "server_nearby run q =
     (if falsy (latitude q) \<or> falsy (longitude q)
      then (Response 400 (Failure ''latitude and longitude parameters are required''), [])
      else
        (let lat = parseFloat (to_string (latitude q));
             lng = parseFloat (to_string (longitude q));
             radiusMiles = parseInt (case radius q of None \<Rightarrow> ''10'' | Some r \<Rightarrow> r)
         in if js_less lat (Num (- 90)) \<or> js_less (Num 90) lat
               \<or> js_less lng (Num (- 180)) \<or> js_less (Num 180) lng
            then (Response 400
                    (Failure
                       ''Invalid coordinates. Latitude: -90 to 90, Longitude: -180 to 180''),
                  [])
            else
              (case run [lat, lng, radiusMiles] of
                 Inl err \<Rightarrow>
                   (Response 500 (Failure ''Failed to find nearby mechanics''),
                    [[lat, lng, radiusMiles]])
               | Inr rows \<Rightarrow>
                   (Response 200
                      (Success
                         \<lparr>sv_mechanics = rows,
                          sv_searchCriteria =
                            \<lparr>svc_latitude = lat, svc_longitude = lng,
                             svc_radius = radiusMiles, svc_unit = ''miles''\<rparr>,
                          sv_count = length rows\<rparr>),
                    [[lat, lng, radiusMiles]]))))"

subsection \<open>\<^verbatim>\<open>GET /api/mechanics/:id\<close>\<close>

text \<open>
  \<^verbatim>\<open>array_agg(DISTINCT x) FILTER (WHERE x IS NOT NULL)\<close>: NULL when no row passes the
  filter, else the distinct values (in an order SQL leaves open).
\<close>

definition array_agg_distinct :: "'a option list \<Rightarrow> 'a list option" where
  "array_agg_distinct xs =
     (case [x. Some x \<leftarrow> xs] of [] \<Rightarrow> None | y # ys \<Rightarrow> Some (remdups (y # ys)))"

text \<open>
  The column \<^verbatim>\<open>s.name\<close> over the rows of
  \<^verbatim>\<open>mechanics m LEFT JOIN mechanic_services ms ON m.id = ms.mechanic_id
  LEFT JOIN services s ON ms.service_id = s.id\<close> that belong to the mechanic \<open>m\<close>.
\<close>

definition left_join_names :: "database \<Rightarrow> mechanic \<Rightarrow> string option list" where
  "left_join_names db m =
     (case filter (\<lambda>ms. m_id m = ms_mechanic_id ms) (mechanic_services db) of
        [] \<Rightarrow> [None]
      | o1 # os \<Rightarrow>
          concat
            (map (\<lambda>ms. case filter (\<lambda>s. ms_service_id ms = s_id s) (services db) of
                          [] \<Rightarrow> [None]
                        | s1 # ss \<Rightarrow> map (\<lambda>s. Some (s_name s)) (s1 # ss))
               (o1 # os)))"

record mechanic_details =
  md_mechanic :: mechanic
  md_services :: "string list option"

text \<open>
  The route's statement, \<^verbatim>\<open>... WHERE m.id = $1 AND m.is_active = true GROUP BY m.id\<close>.
  \<^verbatim>\<open>id\<close> is the primary key of mechanics, so a group is the join rows of one mechanic.
\<close>

definition mechanic_by_id :: "database \<Rightarrow> uuid \<Rightarrow> mechanic_details list" where
  "mechanic_by_id db i =
     map (\<lambda>m. \<lparr>md_mechanic = m, md_services = array_agg_distinct (left_join_names db m)\<rparr>)
       (filter (\<lambda>m. m_id m = i \<and> sql_is_true (m_is_active m)) (mechanics db))"

definition get_mechanic ::
  "(string \<Rightarrow> string + 'row list) \<Rightarrow> string \<Rightarrow> 'row response \<times> string list" where
  "get_mechanic run i =
     (case run i of
        Inl err \<Rightarrow> (Response 500 (Failure ''Failed to get mechanic details''), [i])
      | Inr rows \<Rightarrow>
          (case rows of
             [] \<Rightarrow> (Response 404 (Failure ''Mechanic not found''), [i])
           | r # rs \<Rightarrow> (Response 200 (Success r), [i])))"

subsection \<open>\<^verbatim>\<open>GET /api/services\<close>\<close>

record service_row =
  sr_id :: uuid
  sr_category :: "string option"
  sr_estimated_duration :: "int option"
  sr_name :: "string option"
  sr_description :: "string option"

definition coalesce :: "'a option \<Rightarrow> 'a option \<Rightarrow> 'a option" where
  "coalesce a b = (case a of None \<Rightarrow> b | Some x \<Rightarrow> Some x)"

text \<open>
  \<^verbatim>\<open>services s LEFT JOIN service_translations st
  ON s.id = st.service_id AND st.language_code = $1\<close>
\<close>

definition translation_join ::
  "database \<Rightarrow> string \<Rightarrow> (service \<times> service_translation option) list" where
  "translation_join db lang =
     concat
       (map (\<lambda>s. case filter (\<lambda>st. s_id s = st_service_id st \<and> st_language_code st = lang)
                         (service_translations db) of
                    [] \<Rightarrow> [(s, None)]
                  | t # ts \<Rightarrow> map (\<lambda>st. (s, Some st)) (t # ts))
          (services db))"

definition service_select :: "service \<times> service_translation option \<Rightarrow> service_row" where
  "service_select row =
     (case row of (s, st) \<Rightarrow>
        \<lparr>sr_id = s_id s,
         sr_category = s_category s,
         sr_estimated_duration = s_estimated_duration s,
         sr_name = coalesce (map_option st_name st) (Some (s_name s)),
         sr_description = coalesce (Option.bind st st_description) (s_description s)\<rparr>)"

text \<open>
  \<^verbatim>\<open>ORDER BY s.category, s.name\<close>: both are columns of the table \<^verbatim>\<open>services\<close>. Text is
  compared under the database's collation, which is the parameter \<open>collate\<close>: it maps
  a text to its sort key.
\<close>

definition service_order ::
  "(string \<Rightarrow> 'k::linorder) \<Rightarrow> service \<times> service_translation option
     \<Rightarrow> (bool \<times> 'k option) \<times> 'k" where
  "service_order collate row =
     (case row of (s, st) \<Rightarrow> (nulls_last (map_option collate (s_category s)), collate (s_name s)))"

definition services_query ::
  "(string \<Rightarrow> 'k::linorder) \<Rightarrow> database \<Rightarrow> string \<Rightarrow> service_row list" where
  "services_query collate db lang =
     map service_select
       (sort_key (service_order collate)
          (filter (\<lambda>row. sql_is_true (s_is_active (fst row))) (translation_join db lang)))"

record 'row services_data =
  sd_services :: "'row list"
  sd_language :: string

definition get_services ::
  "(string \<Rightarrow> string + 'row list) \<Rightarrow> string option
     \<Rightarrow> 'row services_data response \<times> string list" where
  "get_services run language =
     (let lang = (case language of None \<Rightarrow> ''en'' | Some l \<Rightarrow> l) in
      case run lang of
        Inl err \<Rightarrow> (Response 500 (Failure ''Failed to get services''), [lang])
      | Inr rows \<Rightarrow>
          (Response 200 (Success \<lparr>sd_services = rows, sd_language = lang\<rparr>), [lang]))"

section \<open>The claims' own readings, and example data\<close>

subsection \<open>The proximity search\<close>

text \<open>
  Case-insensitive containment of a filter text in a service's name, and the distance of
  the mechanic with a given id from a search point: the two notions the statements
  about the proximity search are phrased in.
\<close>

definition name_contains :: "string \<Rightarrow> service \<Rightarrow> bool" where
  "name_contains f s = sublist (lower f) (lower (s_name s))"

definition mechanic_distance ::
  "(geography \<Rightarrow> geography \<Rightarrow> rat) \<Rightarrow> database \<Rightarrow> rat \<Rightarrow> rat \<Rightarrow> uuid \<Rightarrow> rat option" where
  "mechanic_distance geodesic db lat lng i =
     Option.bind (mechanic_of db i)
       (\<lambda>m. ST_Distance geodesic (m_location m) (Some (ST_MakePoint lng lat)))"

text \<open>
  A stand-in for the geodesic distance, used by the examples only: 111320 meters for a
  degree along either axis.
\<close>

fun grid_metres :: "geography \<Rightarrow> geography \<Rightarrow> rat" where
  "grid_metres (Point x1 y1) (Point x2 y2) = 111320 * (\<bar>x1 - x2\<bar> + \<bar>y1 - y2\<bar>)"

text \<open>Three rows of the schema's sample services.\<close>

definition oil_change :: service where
  "oil_change =
     \<lparr>s_id = ''s1'', s_name = ''Oil Change'', s_category = Some ''Maintenance'',
      s_description = Some ''Standard oil and filter change'',
      s_estimated_duration = Some 30, s_is_active = Some True\<rparr>"

definition belt_replacement :: service where
  "belt_replacement =
     \<lparr>s_id = ''s3'', s_name = ''Belt Replacement'', s_category = Some ''Repair'',
      s_description = Some ''Drive belt or timing belt replacement'',
      s_estimated_duration = Some 120, s_is_active = Some True\<rparr>"

definition ac_service :: service where
  "ac_service =
     \<lparr>s_id = ''s6'', s_name = ''AC Service'', s_category = Some ''Repair'',
      s_description = Some ''Air conditioning system service'',
      s_estimated_duration = Some 90, s_is_active = Some True\<rparr>"

definition verified_shop :: "uuid \<Rightarrow> string \<Rightarrow> rat option \<Rightarrow> rat option \<Rightarrow> mechanic" where
  "verified_shop i n lat lng = (mechanic_defaults i n lat lng)\<lparr>m_is_verified := Some True\<rparr>"

definition offer :: "uuid \<Rightarrow> uuid \<Rightarrow> rat \<Rightarrow> rat \<Rightarrow> mechanic_service" where
  "offer m s lo hi =
     \<lparr>ms_mechanic_id = m, ms_service_id = s, ms_min_price = lo, ms_max_price = hi,
      ms_is_available = Some True\<rparr>"

text \<open>
  Four shops around (34.0522, -118.2437): one about 4.5 meters north of the point, one
  on it, one with no latitude, one not verified. Each offers an available service; the
  last one also offers a service that is not available.
\<close>

definition shops_db :: database where
  "shops_db =
     (insert_mechanic
        (insert_mechanic
           (insert_mechanic
              (insert_mechanic empty_database
                 (verified_shop ''m1'' ''Uptown Auto'' (Some 34.05224) (Some (-118.2437))))
              (verified_shop ''m2'' ''Downtown Auto'' (Some 34.0522) (Some (-118.2437))))
           (verified_shop ''m3'' ''No Address Garage'' None (Some (-118.2437))))
        (mechanic_defaults ''m4'' ''New Garage'' (Some 34.0522) (Some (-118.2437))))
     \<lparr>services := [oil_change, belt_replacement],
      mechanic_services :=
        [offer ''m1'' ''s1'' 35 60, offer ''m2'' ''s1'' 30 50, offer ''m2'' ''s3'' 120 200,
         offer ''m3'' ''s1'' 25 40, offer ''m4'' ''s1'' 20 30,
         (offer ''m4'' ''s3'' 100 150)\<lparr>ms_is_available := Some False\<rparr>]\<rparr>"

definition no_address_garage :: mechanic where
  "no_address_garage =
     update_mechanic_location
       (verified_shop ''m3'' ''No Address Garage'' None (Some (-118.2437)))"

definition new_garage :: mechanic where
  "new_garage =
     update_mechanic_location
       (mechanic_defaults ''m4'' ''New Garage'' (Some 34.0522) (Some (-118.2437)))"

definition uptown_row :: nearby_row where
  "uptown_row =
     \<lparr>row_id = ''m1'', row_business_name = ''Uptown Auto'', distance_miles = Some 0,
      row_rating = Some 0, min_price = Some 35, max_price = Some 60\<rparr>"

definition downtown_row :: nearby_row where
  "downtown_row =
     \<lparr>row_id = ''m2'', row_business_name = ''Downtown Auto'', distance_miles = Some 0,
      row_rating = Some 0, min_price = Some 30, max_price = Some 200\<rparr>"

definition belt_row :: nearby_row where
  "belt_row =
     \<lparr>row_id = ''m2'', row_business_name = ''Downtown Auto'', distance_miles = Some 0,
      row_rating = Some 0, min_price = Some 120, max_price = Some 200\<rparr>"

subsection \<open>The routes\<close>

text \<open>A database whose proximity search finds no mechanic, as \<^verbatim>\<open>database.query\<close>.\<close>

definition no_mechanics :: "jsnum list \<Rightarrow> string + nearby_row list" where
  "no_mechanics params = Inr []"

text \<open>A database that fails on every statement.\<close>

definition query_error :: "jsnum list \<Rightarrow> string + nearby_row list" where
  "query_error params = Inl ''query failed''"

text \<open>
  Four requests: with a latitude that is no number and a longitude out of range, with a
  latitude out of range, with a latitude that is no number and a longitude in range, and
  with coordinates in range and a radius given as text.
\<close>

definition malformed_request :: nearby_query where
  "malformed_request = \<lparr>latitude = Some ''abc'', longitude = Some ''200'', radius = None\<rparr>"

definition out_of_range_request :: nearby_query where
  "out_of_range_request =
     \<lparr>latitude = Some ''91'', longitude = Some ''-118.2437'', radius = None\<rparr>"

definition unparsed_latitude_request :: nearby_query where
  "unparsed_latitude_request =
     \<lparr>latitude = Some ''abc'', longitude = Some ''-118.2437'', radius = None\<rparr>"

definition request_with_radius :: "string option \<Rightarrow> nearby_query" where
  "request_with_radius r =
     \<lparr>latitude = Some ''34.0522'', longitude = Some ''-118.2437'', radius = r\<rparr>"

text \<open>
  The names of the services a mechanic has an offering for: every offering counts,
  available or not, and every service, active or not.
\<close>

definition offered_names :: "database \<Rightarrow> mechanic \<Rightarrow> string list" where
  "offered_names db m =
     [s_name s. ms \<leftarrow> mechanic_services db, ms_mechanic_id ms = m_id m,
                s \<leftarrow> services db, s_id s = ms_service_id ms]"

text \<open>A database with one mechanic and no offering.\<close>

definition solo_garage :: mechanic where
  "solo_garage = update_mechanic_location (mechanic_defaults ''m9'' ''Solo Garage'' None None)"

definition solo_db :: database where
  "solo_db = insert_mechanic empty_database (mechanic_defaults ''m9'' ''Solo Garage'' None None)"

subsection \<open>The service catalog\<close>

text \<open>
  The translation of a service into a language, if there is one, and the row of the
  catalog with the name and description resolved: the translation's name when there is
  a translation, else the canonical name; the translation's description when there is a
  translation and its description is not NULL, else the canonical description.
\<close>

definition translation_key :: "service_translation \<Rightarrow> uuid \<times> string" where
  "translation_key st = (st_service_id st, st_language_code st)"

definition translation_of :: "database \<Rightarrow> string \<Rightarrow> service \<Rightarrow> service_translation option" where
  "translation_of db lang s =
     find (\<lambda>st. translation_key st = (s_id s, lang)) (service_translations db)"

definition resolved_row :: "database \<Rightarrow> string \<Rightarrow> service \<Rightarrow> service_row" where
  "resolved_row db lang s =
     \<lparr>sr_id = s_id s,
      sr_category = s_category s,
      sr_estimated_duration = s_estimated_duration s,
      sr_name =
        Some (case translation_of db lang s of None \<Rightarrow> s_name s | Some st \<Rightarrow> st_name st),
      sr_description =
        (case translation_of db lang s of
           None \<Rightarrow> s_description s
         | Some st \<Rightarrow> coalesce (st_description st) (s_description s))\<rparr>"

text \<open>The two orders: by category and canonical name, and by category and resolved name.\<close>

definition canonical_order ::
  "(string \<Rightarrow> 'k::linorder) \<Rightarrow> service \<Rightarrow> (bool \<times> 'k option) \<times> 'k" where
  "canonical_order collate s =
     (nulls_last (map_option collate (s_category s)), collate (s_name s))"

definition resolved_order :: "service_row \<Rightarrow> string option \<times> string option" where
  "resolved_order r = (sr_category r, sr_name r)"

text \<open>
  A catalog of the three sample services with their Spanish names from the schema's
  sample data, and one service that is not active.
\<close>

definition translation :: "uuid \<Rightarrow> string \<Rightarrow> string \<Rightarrow> string \<Rightarrow> service_translation" where
  "translation s l n d =
     \<lparr>st_service_id = s, st_language_code = l, st_name = n, st_description = Some d\<rparr>"

definition towing :: service where
  "towing =
     \<lparr>s_id = ''s9'', s_name = ''Towing'', s_category = Some ''Emergency'',
      s_description = None, s_estimated_duration = Some 60, s_is_active = Some False\<rparr>"

definition catalog_db :: database where
  "catalog_db =
     empty_database
       \<lparr>services := [oil_change, belt_replacement, ac_service, towing],
        service_translations :=
          [translation ''s1'' ''es'' ''Cambio de Aceite'' ''Cambio de aceite y filtro'',
           translation ''s3'' ''es'' ''Reemplazo de Correa'' ''Reemplazo de correa'',
           translation ''s6'' ''es'' ''Servicio de Aire Acondicionado''
             ''Servicio del sistema de aire acondicionado'']\<rparr>"

subsection \<open>Reviews\<close>

definition review_of :: "uuid \<Rightarrow> uuid \<Rightarrow> int \<Rightarrow> bool \<Rightarrow> review" where
  "review_of i m r p =
     \<lparr>rv_id = i, rv_mechanic_id = m, rv_rating = r, rv_is_published = Some p\<rparr>"

text \<open>A second and third write in the same run; the first error ends the run.\<close>

definition then_insert :: "sql_error + database \<Rightarrow> review \<Rightarrow> sql_error + database" where
  "then_insert res NEW = (case res of Inl e \<Rightarrow> Inl e | Inr db \<Rightarrow> insert_review db NEW)"

definition then_update :: "sql_error + database \<Rightarrow> review \<Rightarrow> sql_error + database" where
  "then_update res NEW = (case res of Inl e \<Rightarrow> Inl e | Inr db \<Rightarrow> update_review db NEW)"

text \<open>The rating and the review count of a mechanic after a run of writes.\<close>

definition rating_of ::
  "sql_error + database \<Rightarrow> uuid \<Rightarrow> (rat option \<times> int option) option" where
  "rating_of res mid =
     (case res of
        Inl e \<Rightarrow> None
      | Inr db \<Rightarrow> map_option (\<lambda>m. (m_rating m, m_review_count m)) (mechanic_of db mid))"

section \<open>Lemmas\<close>

subsection \<open>Arithmetic of \<^verbatim>\<open>ROUND\<close>\<close>

lemma floor_rat_numeral_divide [simp]:
  "\<lfloor>(numeral a :: rat) / numeral b\<rfloor> = numeral a div numeral b"
  using floor_divide_of_int_eq [of "numeral a" "numeral b", where ?'a = rat] by simp

lemma sql_round_le_of_int:
  assumes "x \<le> of_int n" and "0 \<le> n"
  shows "sql_round x 2 \<le> of_int n"
proof (cases "0 \<le> x")
  case True
  have "\<bar>x\<bar> * 10 ^ 2 + 1 / 2 < of_int (n * 100 + 1)"
    using assms True by simp
  then have "\<lfloor>\<bar>x\<bar> * 10 ^ 2 + 1 / 2\<rfloor> \<le> n * 100"
    by (simp add: floor_less_iff[symmetric] del: of_int_add of_int_mult)
  then have "(of_int \<lfloor>\<bar>x\<bar> * 10 ^ 2 + 1 / 2\<rfloor> :: rat) \<le> of_int (n * 100)"
    by (simp only: of_int_le_iff)
  then have "(of_int \<lfloor>\<bar>x\<bar> * 10 ^ 2 + 1 / 2\<rfloor> :: rat) / 10 ^ 2 \<le> of_int n"
    by simp
  moreover have "sgn x * of_int \<lfloor>\<bar>x\<bar> * 10 ^ 2 + 1 / 2\<rfloor> / 10 ^ 2
                   \<le> of_int \<lfloor>\<bar>x\<bar> * 10 ^ 2 + 1 / 2\<rfloor> / 10 ^ 2"
    using True by (cases "x = 0") (simp_all add: sgn_if)
  ultimately show ?thesis by (simp add: sql_round_def)
next
  case False
  then have "sgn x = -1" by (simp add: sgn_if)
  moreover have "0 \<le> \<lfloor>\<bar>x\<bar> * 10 ^ 2 + 1 / 2\<rfloor>" by simp
  ultimately have "sql_round x 2 \<le> 0" by (simp add: sql_round_def)
  with assms show ?thesis by simp
qed

subsection \<open>\<^verbatim>\<open>LIKE\<close> patterns without special characters\<close>

lemma like_match_Nil_right: "like_match (p # ps) [] \<longleftrightarrow> p = CHR ''%'' \<and> like_match ps []"
  by (subst like_match.simps(2)) (simp del: like_match.simps split: list.splits)

lemma like_match_percent_Cons:
  "like_match (CHR ''%'' # ps) (c # cs)
     \<longleftrightarrow> like_match ps (c # cs) \<or> like_match (CHR ''%'' # ps) cs"
  by (subst like_match.simps(2)) (simp del: like_match.simps)

lemma like_match_plain_Cons:
  "\<not> like_special p \<Longrightarrow> like_match (p # ps) (c # cs) \<longleftrightarrow> p = c \<and> like_match ps cs"
  by (subst like_match.simps(2)) (simp add: like_special_def del: like_match.simps)

lemma like_match_percent_all: "like_match ''%'' t"
  by (induction t)
    (simp_all add: like_match_Nil_right like_match_percent_Cons del: like_match.simps(2))

lemma like_match_percent:
  "like_match (CHR ''%'' # ps) t \<longleftrightarrow> (\<exists>a b. t = a @ b \<and> like_match ps b)"
proof (induction t)
  case Nil
  then show ?case by (simp add: like_match_Nil_right del: like_match.simps(2))
next
  case (Cons c cs)
  show ?case
  proof
    assume "like_match (CHR ''%'' # ps) (c # cs)"
    then consider "like_match ps (c # cs)" | "like_match (CHR ''%'' # ps) cs"
      unfolding like_match_percent_Cons by blast
    then show "\<exists>a b. c # cs = a @ b \<and> like_match ps b"
    proof cases
      case 1
      then have "c # cs = [] @ (c # cs) \<and> like_match ps (c # cs)" by simp
      then show ?thesis by blast
    next
      case 2
      with Cons obtain a b where "cs = a @ b" "like_match ps b" by blast
      then have "c # cs = (c # a) @ b \<and> like_match ps b" by simp
      then show ?thesis by blast
    qed
  next
    assume "\<exists>a b. c # cs = a @ b \<and> like_match ps b"
    then obtain a b where ab: "c # cs = a @ b" and m: "like_match ps b" by blast
    show "like_match (CHR ''%'' # ps) (c # cs)"
    proof (cases a)
      case Nil
      with ab m show ?thesis unfolding like_match_percent_Cons by simp
    next
      case (Cons x xs)
      with ab have "cs = xs @ b" by simp
      with m Cons.IH show ?thesis unfolding like_match_percent_Cons by blast
    qed
  qed
qed

lemma plain_filter_Cons: "plain_filter (c # f) \<longleftrightarrow> \<not> like_special c \<and> plain_filter f"
  by (simp add: plain_filter_def)

lemma like_match_plain:
  "plain_filter f \<Longrightarrow> like_match (f @ ps) t \<longleftrightarrow> (\<exists>r. t = f @ r \<and> like_match ps r)"
proof (induction f arbitrary: t)
  case Nil
  then show ?case by simp
next
  case (Cons c f)
  then have c: "\<not> like_special c" and f: "plain_filter f"
    by (simp_all add: plain_filter_Cons)
  have nil: "\<not> like_match (c # f @ ps) []"
    using c by (simp add: like_match_Nil_right like_special_def del: like_match.simps(2))
  show ?case
  proof (cases t)
    case Nil
    with nil show ?thesis by simp
  next
    case (Cons x xs)
    then show ?thesis
      using like_match_plain_Cons[OF c, of "f @ ps" x xs] Cons.IH[OF f, of xs] by auto
  qed
qed

lemma like_match_contains:
  assumes "plain_filter f"
  shows "like_match (''%'' @ f @ ''%'') t \<longleftrightarrow> sublist f t"
proof -
  have "like_match (''%'' @ f @ ''%'') t \<longleftrightarrow> (\<exists>a b. t = a @ b \<and> like_match (f @ ''%'') b)"
    using like_match_percent[of "f @ ''%''" t] by simp
  also have "\<dots> \<longleftrightarrow> (\<exists>a b. t = a @ b \<and> (\<exists>r. b = f @ r))"
    using like_match_plain[OF assms, of "''%''"] like_match_percent_all by simp
  also have "\<dots> \<longleftrightarrow> sublist f t"
    by (auto simp: sublist_def)
  finally show ?thesis .
qed

lemma like_special_code: "like_special c \<longleftrightarrow> (of_char c :: nat) \<in> {37, 95, 92}"
proof -
  have "c = CHR ''%'' \<longleftrightarrow> (of_char c :: nat) = of_char (CHR ''%'')"
       "c = CHR ''_'' \<longleftrightarrow> (of_char c :: nat) = of_char (CHR ''_'')"
       "c = CHR 0x5C \<longleftrightarrow> (of_char c :: nat) = of_char (CHR 0x5C)"
    by (simp_all only: of_char_eq_iff)
  then show ?thesis by (simp add: like_special_def)
qed

lemma ascii_lower_special: "like_special (ascii_lower c) \<longleftrightarrow> like_special c"
proof (cases "CHR ''A'' \<le> c \<and> c \<le> CHR ''Z''")
  case True
  then have n: "65 \<le> (of_char c :: nat)" "(of_char c :: nat) \<le> 90"
    by (simp_all add: less_eq_char_def)
  then have "(of_char (ascii_lower c) :: nat) = of_char c + 32"
    using True by (simp add: ascii_lower_def)
  with n show ?thesis by (simp add: like_special_code)
next
  case False
  then show ?thesis by (auto simp: ascii_lower_def)
qed

lemma plain_filter_lower: "plain_filter f \<Longrightarrow> plain_filter (lower f)"
  by (induction f) (simp_all add: plain_filter_Cons lower_def ascii_lower_special)

lemma ilike_plain_filter:
  assumes "plain_filter f"
  shows "ilike t (''%'' @ f @ ''%'') \<longleftrightarrow> sublist (lower f) (lower t)"
proof -
  from assms have "plain_filter (lower f)" by (rule plain_filter_lower)
  then have "like_match (''%'' @ lower f @ ''%'') (lower t) \<longleftrightarrow> sublist (lower f) (lower t)"
    by (rule like_match_contains)
  moreover have "lower (''%'' @ f @ ''%'') = ''%'' @ lower f @ ''%''"
    by (simp add: lower_def ascii_lower_def)
  ultimately show ?thesis by (simp only: ilike_def)
qed

subsection \<open>Where a row of the proximity search comes from\<close>

lemma joined_rows_iff:
  "(m, ms, s) \<in> set (joined_rows db) \<longleftrightarrow>
     m \<in> set (mechanics db) \<and> ms \<in> set (mechanic_services db) \<and> s \<in> set (services db)
     \<and> m_id m = ms_mechanic_id ms \<and> ms_service_id ms = s_id s"
  by (auto simp: joined_rows_def)

lemma select_row_fields:
  "row_id (select_row geodesic lat lng sel (group_key m)) = m_id m"
  "row_business_name (select_row geodesic lat lng sel (group_key m)) = m_business_name m"
  "row_rating (select_row geodesic lat lng sel (group_key m)) = m_rating m"
  "distance_miles (select_row geodesic lat lng sel (group_key m)) =
     map_option (\<lambda>d. sql_round (d * 0.000621371) 2)
       (ST_Distance geodesic (m_location m) (Some (ST_MakePoint lng lat)))"
  by (simp_all add: select_row_def group_key_def Let_def)

lemma find_row_source:
  assumes "r \<in> set (find_mechanics_within_radius geodesic db lat lng radius_miles f)"
  shows "\<exists>m ms s. (m, ms, s) \<in> set (joined_rows db)
           \<and> where_clause geodesic lat lng radius_miles f (m, ms, s)
           \<and> r = select_row geodesic lat lng
                   (filter (where_clause geodesic lat lng radius_miles f) (joined_rows db))
                   (group_key m)"
proof -
  let ?sel = "filter (where_clause geodesic lat lng radius_miles f) (joined_rows db)"
  from assms obtain g where
    g: "g \<in> row_key ` set ?sel" and r: "r = select_row geodesic lat lng ?sel g"
    unfolding find_mechanics_within_radius_def Let_def by (simp add: image_iff) blast
  from g obtain row where row: "row \<in> set ?sel" and gk: "g = row_key row" by blast
  obtain m ms s where mss: "row = (m, ms, s)" by (cases row) auto
  with row gk r show ?thesis by (auto simp: row_key_def)
qed

lemma where_clause_location:
  assumes "where_clause geodesic lat lng radius_miles f (m, ms, s)"
  shows "\<exists>loc. m_location m = Some loc
           \<and> geodesic loc (ST_MakePoint lng lat) \<le> of_int radius_miles * 1609.34"
  using assms
  by (auto simp: where_clause_def sql_is_true_def ST_DWithin_def ST_Distance_def
      split: option.splits)

lemma where_clause_flags:
  assumes "where_clause geodesic lat lng radius_miles f (m, ms, s)"
  shows "m_is_active m = Some True" "m_is_verified m = Some True" "ms_is_available ms = Some True"
    and "f = Some t \<Longrightarrow> ilike (s_name s) (''%'' @ t @ ''%'')"
  using assms by (auto simp: where_clause_def sql_is_true_def)

lemma find_row_mechanic:
  assumes "r \<in> set (find_mechanics_within_radius geodesic db lat lng radius_miles f)"
  shows "\<exists>m ms s loc.
           m \<in> set (mechanics db) \<and> ms \<in> set (mechanic_services db) \<and> s \<in> set (services db)
           \<and> ms_mechanic_id ms = m_id m \<and> s_id s = ms_service_id ms
           \<and> where_clause geodesic lat lng radius_miles f (m, ms, s)
           \<and> row_id r = m_id m \<and> row_business_name r = m_business_name m
           \<and> row_rating r = m_rating m
           \<and> m_location m = Some loc
           \<and> geodesic loc (ST_MakePoint lng lat) \<le> of_int radius_miles * 1609.34
           \<and> distance_miles r
               = Some (sql_round (geodesic loc (ST_MakePoint lng lat) * 0.000621371) 2)"
proof -
  from find_row_source[OF assms] obtain m ms s where
    j: "(m, ms, s) \<in> set (joined_rows db)" and
    w: "where_clause geodesic lat lng radius_miles f (m, ms, s)" and
    r: "r = select_row geodesic lat lng
              (filter (where_clause geodesic lat lng radius_miles f) (joined_rows db))
              (group_key m)"
    by blast
  from where_clause_location[OF w] obtain loc where
    loc: "m_location m = Some loc"
         "geodesic loc (ST_MakePoint lng lat) \<le> of_int radius_miles * 1609.34"
    by blast
  have d: "distance_miles r
             = Some (sql_round (geodesic loc (ST_MakePoint lng lat) * 0.000621371) 2)"
    unfolding r select_row_fields by (simp add: loc ST_Distance_def)
  from j have "m \<in> set (mechanics db)" "ms \<in> set (mechanic_services db)"
    "s \<in> set (services db)" "ms_mechanic_id ms = m_id m" "s_id s = ms_service_id ms"
    by (simp_all add: joined_rows_iff)
  moreover have "row_id r = m_id m" "row_business_name r = m_business_name m"
    "row_rating r = m_rating m"
    unfolding r by (simp_all only: select_row_fields)
  ultimately show ?thesis using w loc d by blast
qed

lemma find_row_offer:
  assumes "r \<in> set (find_mechanics_within_radius geodesic db lat lng radius_miles f)"
  shows "\<exists>m ms s. m \<in> set (mechanics db) \<and> ms \<in> set (mechanic_services db)
           \<and> s \<in> set (services db)
           \<and> m_id m = row_id r \<and> m_is_active m = Some True \<and> m_is_verified m = Some True
           \<and> ms_mechanic_id ms = m_id m \<and> ms_is_available ms = Some True
           \<and> s_id s = ms_service_id ms
           \<and> (\<forall>t. f = Some t \<longrightarrow>
                  ilike (s_name s) (''%'' @ t @ ''%'') \<and> (plain_filter t \<longrightarrow> name_contains t s))"
proof -
  from find_row_mechanic[OF assms] obtain m ms s where
    a: "m \<in> set (mechanics db)" "ms \<in> set (mechanic_services db)" "s \<in> set (services db)"
       "ms_mechanic_id ms = m_id m" "s_id s = ms_service_id ms" "row_id r = m_id m" and
    w: "where_clause geodesic lat lng radius_miles f (m, ms, s)"
    by blast
  have "ilike (s_name s) (''%'' @ t @ ''%'') \<and> (plain_filter t \<longrightarrow> name_contains t s)"
    if "f = Some t" for t
    using where_clause_flags(4)[OF w that] ilike_plain_filter[of t "s_name s"]
    by (simp add: name_contains_def)
  with a where_clause_flags(1-3)[OF w] show ?thesis by metis
qed

lemma distinct_map_eq:
  assumes "distinct (map f xs)" "x \<in> set xs" "y \<in> set xs" "f x = f y"
  shows "x = y"
  using assms by (meson distinct_map inj_onD)

lemma update_mechanic_location_null:
  "m_location (update_mechanic_location NEW) = None
     \<longleftrightarrow> m_location NEW = None \<and> (m_latitude NEW = None \<or> m_longitude NEW = None)"
  by (auto simp: update_mechanic_location_def split: option.splits)

lemma sorted_nulls_last:
  assumes "\<forall>x \<in> set xs. \<exists>d. f x = Some d"
    and "sorted (map (\<lambda>x. nulls_last (f x)) xs)"
  shows "\<exists>ds. map f xs = map Some ds \<and> sorted ds"
  using assms
proof (induction xs)
  case Nil
  then show ?case by simp
next
  case (Cons x xs)
  then obtain ds where ds: "map f xs = map Some ds" "sorted ds" by auto
  from Cons.prems(1) obtain d where d: "f x = Some d" by auto
  have "d \<le> e" if "e \<in> set ds" for e
  proof -
    from that ds(1) have "Some e \<in> set (map f xs)" by simp
    then obtain y where y: "y \<in> set xs" "f y = Some e" by auto
    with Cons.prems(2) have "nulls_last (f x) \<le> nulls_last (f y)" by auto
    with d y(2) show ?thesis by (simp add: nulls_last_def)
  qed
  with ds d have "map f (x # xs) = map Some (d # ds) \<and> sorted (d # ds)" by auto
  then show ?case by blast
qed

subsection \<open>The example shops\<close>

lemma shops_ids: "map m_id (mechanics shops_db) = [''m1'', ''m2'', ''m3'', ''m4'']"
  by code_simp

lemma new_garage_in: "new_garage \<in> set (mechanics shops_db)"
  by (simp add: shops_db_def insert_mechanic_def new_garage_def)

lemma no_address_in: "no_address_garage \<in> set (mechanics shops_db)"
  by (simp add: shops_db_def insert_mechanic_def no_address_garage_def)

lemma shops_search:
  "find_mechanics_within_radius grid_metres shops_db 34.0522 (-118.2437) 1 None
     = [uptown_row, downtown_row]"
  by code_simp

lemma shops_belt_search:
  "find_mechanics_within_radius grid_metres shops_db 34.0522 (-118.2437) 1 (Some ''belt'')
     = [belt_row]"
  by code_simp

subsection \<open>Rows with a unique key\<close>

lemma filter_unique_key:
  assumes "distinct (map k xs)"
  shows "filter (\<lambda>x. k x = v) xs = (case find (\<lambda>x. k x = v) xs of None \<Rightarrow> [] | Some t \<Rightarrow> [t])"
  using assms
proof (induction xs)
  case Nil
  then show ?case by simp
next
  case (Cons a xs)
  show ?case
  proof (cases "k a = v")
    case True
    with Cons.prems have "\<forall>y \<in> set xs. k y \<noteq> v" by (auto simp: image_iff)
    then have "filter (\<lambda>x. k x = v) xs = []" by (simp add: filter_empty_conv)
    with True show ?thesis by simp
  next
    case False
    with Cons show ?thesis by simp
  qed
qed

lemma find_distinct:
  assumes "distinct (map f xs)" "x \<in> set xs"
  shows "find (\<lambda>y. f y = f x) xs = Some x"
  using assms by (induction xs) force+

lemma filter_distinct_key:
  assumes "distinct (map f xs)" "x \<in> set xs"
  shows "filter (\<lambda>y. f y = f x) xs = [x]"
  using filter_unique_key[OF assms(1), of "f x"] find_distinct[OF assms] by simp

lemma find_map: "find P (map g xs) = map_option g (find (P \<circ> g) xs)"
  by (induction xs) simp_all

lemma insort_key_map:
  "insort_key f (g x) (map g ys) = map g (insort_key (\<lambda>y. f (g y)) x ys)"
  by (induction ys) simp_all

lemma sort_key_map: "sort_key f (map g xs) = map g (sort_key (\<lambda>y. f (g y)) xs)"
  by (induction xs) (simp_all add: insort_key_map)

subsection \<open>The text the routes parse\<close>

lemma parse_examples:
  "parseFloat ''abc'' = NaN"
  "parseFloat ''200'' = Num 200"
  "parseFloat ''91'' = Num 91"
  "parseFloat ''34.0522'' = Num 34.0522"
  "parseFloat ''-118.2437'' = Num (-118.2437)"
  "parseInt ''10'' = Num 10"
  "parseInt ''0'' = Num 0"
  "parseInt ''-5'' = Num (-5)"
  "parseInt ''abc'' = NaN"
  by (simp_all add: parseFloat_def parseInt_def is_js_space_def is_js_space3_def is_digit_def
      digits_val_def parse_exponent_def)

lemma skip_js_space_examples:
  "skip_js_space [CHR '' '', CHR 0x09, CHR 0xC2, CHR 0xA0, CHR 0xE2, CHR 0x80, CHR 0x83,
                  CHR 0xEF, CHR 0xBB, CHR 0xBF, CHR ''4'', CHR ''2'', CHR '' ''] = ''42 ''"
  "skip_js_space [CHR 0xC2, CHR 0xA9, CHR ''4''] = [CHR 0xC2, CHR 0xA9, CHR ''4'']"
  "parseInt [CHR 0xC2, CHR 0xA0, CHR ''7''] = Num 7"
  by (simp_all add: parseInt_def is_js_space_def is_js_space3_def is_digit_def digits_val_def)

subsection \<open>The join of \<^verbatim>\<open>GET /api/mechanics/:id\<close>\<close>

lemma concat_map_if:
  "concat (map (\<lambda>x. if P x then f x else []) xs) = concat (map f (filter P xs))"
  by (induction xs) simp_all

lemma concat_map_if_single:
  "concat (map (\<lambda>x. if P x then [h x] else []) xs) = map h (filter P xs)"
  by (induction xs) simp_all

lemma offered_names_concat:
  "offered_names db m
     = concat (map (\<lambda>ms. map s_name (filter (\<lambda>s. ms_service_id ms = s_id s) (services db)))
                 (filter (\<lambda>ms. m_id m = ms_mechanic_id ms) (mechanic_services db)))"
proof -
  have "offered_names db m
          = concat (map (\<lambda>ms. if m_id m = ms_mechanic_id ms
                               then map s_name
                                      (filter (\<lambda>s. ms_service_id ms = s_id s) (services db))
                               else [])
                      (mechanic_services db))"
    unfolding offered_names_def
    by (simp add: concat_map_if_single eq_commute cong: if_cong)
  then show ?thesis by (simp only: concat_map_if)
qed

lemma somes_concat:
  "[x. Some x \<leftarrow> concat xss] = concat (map (\<lambda>xs. [x. Some x \<leftarrow> xs]) xss)"
  by (induction xss) simp_all

lemma left_join_names_some:
  "[x. Some x \<leftarrow> left_join_names db m] = offered_names db m"
proof -
  let ?mss = "filter (\<lambda>ms. m_id m = ms_mechanic_id ms) (mechanic_services db)"
  let ?g = "\<lambda>ms. case filter (\<lambda>s. ms_service_id ms = s_id s) (services db) of
                    [] \<Rightarrow> [None]
                  | s1 # ss \<Rightarrow> map (\<lambda>s. Some (s_name s)) (s1 # ss)"
  have g: "[x. Some x \<leftarrow> ?g ms]
             = map s_name (filter (\<lambda>s. ms_service_id ms = s_id s) (services db))"
    for ms
  proof (cases "filter (\<lambda>s. ms_service_id ms = s_id s) (services db)")
    case Nil
    then show ?thesis by simp
  next
    case (Cons a list)
    have "[x. Some x \<leftarrow> map (\<lambda>s. Some (s_name s)) zs] = map s_name zs"
      for zs :: "service list"
      by (induction zs) simp_all
    with Cons show ?thesis by simp
  qed
  show ?thesis
  proof (cases ?mss)
    case Nil
    then show ?thesis by (simp add: left_join_names_def offered_names_concat)
  next
    case (Cons o1 os)
    then have "left_join_names db m = concat (map ?g ?mss)"
      by (simp add: left_join_names_def)
    then have "[x. Some x \<leftarrow> left_join_names db m]
                 = concat (map (\<lambda>ms. [x. Some x \<leftarrow> ?g ms]) ?mss)"
      by (simp only: somes_concat map_map comp_def)
    also have "\<dots> = offered_names db m"
      by (simp only: g offered_names_concat)
    finally show ?thesis .
  qed
qed

lemma array_agg_distinct_names:
  "case array_agg_distinct xs of
     None \<Rightarrow> [x. Some x \<leftarrow> xs] = []
   | Some ns \<Rightarrow> ns \<noteq> [] \<and> distinct ns \<and> set ns = set [x. Some x \<leftarrow> xs]"
proof -
  have "case (case ys of [] \<Rightarrow> None | y # t \<Rightarrow> Some (remdups (y # t))) of
          None \<Rightarrow> ys = []
        | Some ns \<Rightarrow> ns \<noteq> [] \<and> distinct ns \<and> set ns = set ys" for ys :: "'a list"
    by (cases ys) (simp_all del: remdups.simps)
  then show ?thesis unfolding array_agg_distinct_def .
qed

subsection \<open>The join of \<^verbatim>\<open>GET /api/services\<close>\<close>

lemma translation_join_unique:
  assumes "distinct (map translation_key (service_translations db))"
  shows "translation_join db lang = map (\<lambda>s. (s, translation_of db lang s)) (services db)"
proof -
  have f: "filter (\<lambda>st. s_id s = st_service_id st \<and> st_language_code st = lang)
             (service_translations db)
          = (case translation_of db lang s of None \<Rightarrow> [] | Some t \<Rightarrow> [t])" for s
    using filter_unique_key[OF assms, of "(s_id s, lang)"]
    by (simp add: translation_key_def translation_of_def eq_commute)
  have "(case filter (\<lambda>st. s_id s = st_service_id st \<and> st_language_code st = lang)
                (service_translations db) of
           [] \<Rightarrow> [(s, None)]
         | t # ts \<Rightarrow> map (\<lambda>st. (s, Some st)) (t # ts))
          = [(s, translation_of db lang s)]" for s
    unfolding f by (cases "translation_of db lang s") simp_all
  then show ?thesis
    unfolding translation_join_def by simp
qed

lemma service_select_resolved:
  "service_select (s, translation_of db lang s) = resolved_row db lang s"
  by (simp add: service_select_def resolved_row_def coalesce_def split: option.splits)

subsection \<open>The rating trigger\<close>

lemma update_mechanic_location_keeps:
  "m_id (update_mechanic_location NEW) = m_id NEW"
  "m_rating (update_mechanic_location NEW) = m_rating NEW"
  "m_review_count (update_mechanic_location NEW) = m_review_count NEW"
  "m_is_active (update_mechanic_location NEW) = m_is_active NEW"
  "m_is_verified (update_mechanic_location NEW) = m_is_verified NEW"
  by (simp_all add: update_mechanic_location_def split: option.splits)

text \<open>
  What the trigger does in general: after it has run for a review of the mechanic \<open>m\<close>,
  the rating of \<open>m\<close> is the mean of its published reviews rounded to two decimals, NULL
  when it has none, and its review count is their number.
\<close>

lemma update_mechanic_rating_recomputes:
  assumes "distinct (map m_id (mechanics db))"
    and "m \<in> set (mechanics db)"
    and "m_id m = rv_mechanic_id NEW"
  shows "\<exists>m'. mechanic_of (update_mechanic_rating db NEW) (m_id m) = Some m'
           \<and> m_rating m' = map_option (\<lambda>a. sql_round a 2)
                              (sql_avg (map rv_rating (published_reviews db (m_id m))))
           \<and> m_review_count m' = Some (int (length (published_reviews db (m_id m))))"
proof -
  let ?g = "\<lambda>m. if m_id m = rv_mechanic_id NEW
                then update_mechanic_location
                       (m\<lparr>m_rating := map_option (\<lambda>a. sql_round a 2)
                                        (sql_avg (map rv_rating
                                           (published_reviews db (rv_mechanic_id NEW)))),
                          m_review_count :=
                            Some (int (length (published_reviews db (rv_mechanic_id NEW))))\<rparr>)
                else m"
  have ids: "m_id (?g x) = m_id x" for x
    by (simp add: update_mechanic_location_keeps)
  have "mechanic_of (update_mechanic_rating db NEW) (m_id m)
          = map_option ?g (find (\<lambda>y. m_id y = m_id m) (mechanics db))"
    unfolding mechanic_of_def update_mechanic_rating_def Let_def
    by (simp add: find_map comp_def ids del: if_split cong: if_cong)
  also have "\<dots> = Some (?g m)"
    using find_distinct[OF assms(1,2)] by simp
  finally have "mechanic_of (update_mechanic_rating db NEW) (m_id m) = Some (?g m)" .
  moreover have "m_rating (?g m) = map_option (\<lambda>a. sql_round a 2)
                              (sql_avg (map rv_rating (published_reviews db (m_id m))))"
    "m_review_count (?g m) = Some (int (length (published_reviews db (m_id m))))"
    using assms(3) by (simp_all add: update_mechanic_location_keeps)
  ultimately show ?thesis by blast
qed

lemma published_reviews_after_trigger:
  "published_reviews (update_mechanic_rating db NEW) mid = published_reviews db mid"
  by (simp add: published_reviews_def update_mechanic_rating_def Let_def)

lemma mechanics_after_trigger:
  "map m_id (mechanics (update_mechanic_rating db NEW)) = map m_id (mechanics db)"
  by (simp add: update_mechanic_rating_def Let_def comp_def update_mechanic_location_keeps
      cong: if_cong)

text \<open>
  So after a successful insert, and after an update that changes a row, the owning
  mechanic's rating and review count are those of its published reviews in the new
  state of the table.
\<close>

lemma insert_review_recomputes:
  assumes "insert_review db NEW = Inr db'"
    and "distinct (map m_id (mechanics db))"
  shows "\<exists>m'. mechanic_of db' (rv_mechanic_id NEW) = Some m'
           \<and> m_rating m'
               = map_option (\<lambda>a. sql_round a 2)
                   (sql_avg (map rv_rating (published_reviews db' (rv_mechanic_id NEW))))
           \<and> m_review_count m'
               = Some (int (length (published_reviews db' (rv_mechanic_id NEW))))"
proof -
  let ?db1 = "db\<lparr>reviews := reviews db @ [NEW]\<rparr>"
  from assms(1) have db': "db' = update_mechanic_rating ?db1 NEW"
    and "rv_mechanic_id NEW \<in> set (map m_id (mechanics db))"
    by (auto simp: insert_review_def split: if_splits)
  then obtain m where m: "m \<in> set (mechanics ?db1)" "m_id m = rv_mechanic_id NEW"
    by auto
  from assms(2) have d: "distinct (map m_id (mechanics ?db1))" by simp
  from update_mechanic_rating_recomputes[OF d m] show ?thesis
    unfolding db' published_reviews_after_trigger m(2) .
qed

lemma update_review_recomputes:
  assumes "update_review db NEW = Inr db'"
    and "rv_id NEW \<in> set (map rv_id (reviews db))"
    and "distinct (map m_id (mechanics db))"
  shows "\<exists>m'. mechanic_of db' (rv_mechanic_id NEW) = Some m'
           \<and> m_rating m'
               = map_option (\<lambda>a. sql_round a 2)
                   (sql_avg (map rv_rating (published_reviews db' (rv_mechanic_id NEW))))
           \<and> m_review_count m'
               = Some (int (length (published_reviews db' (rv_mechanic_id NEW))))"
proof -
  let ?db1 = "db\<lparr>reviews := map (\<lambda>r. if rv_id r = rv_id NEW then NEW else r) (reviews db)\<rparr>"
  from assms(1,2) have db': "db' = update_mechanic_rating ?db1 NEW"
    and "rv_mechanic_id NEW \<in> set (map m_id (mechanics db))"
    by (auto simp: update_review_def split: if_splits)
  then obtain m where m: "m \<in> set (mechanics ?db1)" "m_id m = rv_mechanic_id NEW"
    by auto
  from assms(3) have d: "distinct (map m_id (mechanics ?db1))" by simp
  from update_mechanic_rating_recomputes[OF d m] show ?thesis
    unfolding db' published_reviews_after_trigger m(2) .
qed

text \<open>
  The trigger recomputes for the mechanic of the new row only: when an update moves a
  review to another mechanic, the mechanic it leaves keeps the rating and the count it
  had, here 5.00 and 1 with no review left.
\<close>

lemma moved_review_leaves_rating:
  "rating_of (then_update (insert_review shops_db (review_of ''r1'' ''m2'' 5 True))
                (review_of ''r1'' ''m1'' 5 True)) ''m2''
     = Some (Some 5, Some 1)"
  "rating_of (then_update (insert_review shops_db (review_of ''r1'' ''m2'' 5 True))
                (review_of ''r1'' ''m1'' 5 True)) ''m1''
     = Some (Some 5, Some 1)"
  by code_simp+

text \<open>The spec's example: a first published review of 5, a second of 3, then an unpublished one.\<close>

lemma rating_examples:
  "rating_of (insert_review shops_db (review_of ''r1'' ''m2'' 5 True)) ''m2''
     = Some (Some 5, Some 1)"
  "rating_of (then_insert (insert_review shops_db (review_of ''r1'' ''m2'' 5 True))
                (review_of ''r2'' ''m2'' 3 True)) ''m2''
     = Some (Some 4, Some 2)"
  "rating_of (then_insert
                (then_insert (insert_review shops_db (review_of ''r1'' ''m2'' 5 True))
                   (review_of ''r2'' ''m2'' 3 True))
                (review_of ''r3'' ''m2'' 1 False)) ''m2''
     = Some (Some 4, Some 2)"
  by code_simp+

section \<open>The proximity search\<close>

text \<open>
  Claim C2. For a radius \<open>r \<ge> 0\<close> in miles, every row that
  \<^verbatim>\<open>find_mechanics_within_radius\<close> returns belongs to a mechanic whose location is at a
  geodesic distance of at most \<open>r\<close> miles from the search point, a mile being 1609.34
  meters; the distance the row reports (meters times 0.000621371, rounded to two
  decimals) is at most \<open>r\<close> as well, so it is within any rounding tolerance.
\<close>

theorem within_radius:
  assumes "0 \<le> radius_miles"
    and "r \<in> set (find_mechanics_within_radius geodesic db search_lat search_lng radius_miles
                     service_filter)"
  shows "\<exists>m loc. m \<in> set (mechanics db) \<and> m_id m = row_id r \<and> m_location m = Some loc
           \<and> geodesic loc (ST_MakePoint search_lng search_lat) / 1609.34 \<le> of_int radius_miles
           \<and> distance_miles r
               = Some (sql_round
                         (geodesic loc (ST_MakePoint search_lng search_lat) * 0.000621371) 2)
           \<and> sql_round (geodesic loc (ST_MakePoint search_lng search_lat) * 0.000621371) 2
               \<le> of_int radius_miles"
proof -
  from find_row_mechanic[OF assms(2)] obtain m loc where
    m: "m \<in> set (mechanics db)" "row_id r = m_id m" "m_location m = Some loc" and
    le: "geodesic loc (ST_MakePoint search_lng search_lat) \<le> of_int radius_miles * 1609.34" and
    d: "distance_miles r
          = Some (sql_round (geodesic loc (ST_MakePoint search_lng search_lat) * 0.000621371) 2)"
    by blast
  let ?g = "geodesic loc (ST_MakePoint search_lng search_lat)"
  have r0: "(0::rat) \<le> of_int radius_miles" using assms(1) by simp
  from le have miles: "?g / 1609.34 \<le> of_int radius_miles"
    by (simp add: field_simps)
  from le have "?g * 0.000621371 \<le> of_int radius_miles * 1609.34 * 0.000621371"
    by simp
  also have "\<dots> = of_int radius_miles * 0.99999720514"
    by simp
  also have "\<dots> \<le> of_int radius_miles"
    using r0 by (simp add: field_simps)
  finally have "sql_round (?g * 0.000621371) 2 \<le> of_int radius_miles"
    using assms(1) by (rule sql_round_le_of_int)
  with m miles d show ?thesis by auto
qed

text \<open>
  The search of radius 1 around (34.0522, -118.2437) over the example shops returns the
  shop on the point; the theorem gives its mechanic.
\<close>

theorem within_radius_witness:
  "(0::int) \<le> 1
   \<and> downtown_row
       \<in> set (find_mechanics_within_radius grid_metres shops_db 34.0522 (-118.2437) 1 None)
   \<and> (\<exists>m loc. m \<in> set (mechanics shops_db) \<and> m_id m = ''m2'' \<and> m_location m = Some loc
         \<and> grid_metres loc (ST_MakePoint (-118.2437) 34.0522) / 1609.34 \<le> 1
         \<and> distance_miles downtown_row
             = Some (sql_round
                       (grid_metres loc (ST_MakePoint (-118.2437) 34.0522) * 0.000621371) 2)
         \<and> sql_round (grid_metres loc (ST_MakePoint (-118.2437) 34.0522) * 0.000621371) 2 \<le> 1)"
proof -
  have h: "downtown_row
             \<in> set (find_mechanics_within_radius grid_metres shops_db 34.0522 (-118.2437) 1 None)"
    unfolding shops_search by simp
  have z: "(0::int) \<le> 1" by simp
  from within_radius[OF z h] h show ?thesis
    by (simp add: downtown_row_def)
qed

text \<open>
  Claim C3, as stated, fails: the filter is spliced into an \<^verbatim>\<open>ILIKE\<close> pattern, where
  \<^verbatim>\<open>_\<close> and \<^verbatim>\<open>%\<close> are wildcards. With the filter \<^verbatim>\<open>_\<close> both listed shops appear,
  and no service name contains an underscore.
\<close>

theorem wildcard_filter_counterexample:
  "map row_id
     (find_mechanics_within_radius grid_metres shops_db 34.0522 (-118.2437) 1 (Some ''_''))
     = [''m1'', ''m2'']
   \<and> map (name_contains ''_'') (services shops_db) = [False, False]"
  by code_simp

text \<open>
  Claim C3, amended. Every row returned belongs to a mechanic that is active and
  verified and has an available offering of a service whose name matches the pattern
  \<^verbatim>\<open>%filter%\<close> under \<^verbatim>\<open>ILIKE\<close> when a filter is given; for a filter without \<^verbatim>\<open>%\<close>,
  \<^verbatim>\<open>_\<close> and backslash that is: the name contains the filter, case folded. With \<^verbatim>\<open>id\<close> the
  primary key, a mechanic that is not active or not verified has no row, whatever its
  distance.
\<close>

theorem listed_only_if_active_verified_available:
  "(\<forall>r \<in> set (find_mechanics_within_radius geodesic db search_lat search_lng radius_miles
                  service_filter).
      \<exists>m ms s. m \<in> set (mechanics db) \<and> ms \<in> set (mechanic_services db)
        \<and> s \<in> set (services db)
        \<and> m_id m = row_id r \<and> m_is_active m = Some True \<and> m_is_verified m = Some True
        \<and> ms_mechanic_id ms = m_id m \<and> ms_is_available ms = Some True
        \<and> s_id s = ms_service_id ms
        \<and> (\<forall>t. service_filter = Some t \<longrightarrow>
               ilike (s_name s) (''%'' @ t @ ''%'') \<and> (plain_filter t \<longrightarrow> name_contains t s)))
   \<and> (distinct (map m_id (mechanics db)) \<longrightarrow>
        (\<forall>m \<in> set (mechanics db).
           m_is_active m \<noteq> Some True \<or> m_is_verified m \<noteq> Some True \<longrightarrow>
           m_id m \<notin> row_id ` set (find_mechanics_within_radius geodesic db search_lat search_lng
                                      radius_miles service_filter)))"
proof (intro conjI ballI impI)
  fix r
  assume "r \<in> set (find_mechanics_within_radius geodesic db search_lat search_lng radius_miles
                     service_filter)"
  then show "\<exists>m ms s. m \<in> set (mechanics db) \<and> ms \<in> set (mechanic_services db)
        \<and> s \<in> set (services db)
        \<and> m_id m = row_id r \<and> m_is_active m = Some True \<and> m_is_verified m = Some True
        \<and> ms_mechanic_id ms = m_id m \<and> ms_is_available ms = Some True
        \<and> s_id s = ms_service_id ms
        \<and> (\<forall>t. service_filter = Some t \<longrightarrow>
               ilike (s_name s) (''%'' @ t @ ''%'') \<and> (plain_filter t \<longrightarrow> name_contains t s))"
    by (rule find_row_offer)
next
  fix m
  assume d: "distinct (map m_id (mechanics db))" and m: "m \<in> set (mechanics db)"
    and off: "m_is_active m \<noteq> Some True \<or> m_is_verified m \<noteq> Some True"
  show "m_id m \<notin> row_id ` set (find_mechanics_within_radius geodesic db search_lat search_lng
                                  radius_miles service_filter)"
  proof
    assume "m_id m \<in> row_id ` set (find_mechanics_within_radius geodesic db search_lat
                                      search_lng radius_miles service_filter)"
    then obtain r where
      r: "r \<in> set (find_mechanics_within_radius geodesic db search_lat search_lng radius_miles
                      service_filter)" and
      i: "m_id m = row_id r"
      by blast
    from find_row_offer[OF r] obtain m' where
      m': "m' \<in> set (mechanics db)" "m_id m' = row_id r"
          "m_is_active m' = Some True" "m_is_verified m' = Some True"
      by blast
    from distinct_map_eq[OF d m m'(1)] i m'(2) have "m = m'" by simp
    with off m'(3,4) show False by simp
  qed
qed

text \<open>
  With the filter \<^verbatim>\<open>belt\<close> the example search returns the shop that offers a belt
  replacement, and not the shop that is not verified.
\<close>

theorem listed_only_if_active_verified_available_witness:
  "(\<exists>m ms s. m \<in> set (mechanics shops_db) \<and> ms \<in> set (mechanic_services shops_db)
       \<and> s \<in> set (services shops_db)
       \<and> m_id m = ''m2'' \<and> m_is_active m = Some True \<and> m_is_verified m = Some True
       \<and> ms_mechanic_id ms = m_id m \<and> ms_is_available ms = Some True
       \<and> s_id s = ms_service_id ms
       \<and> ilike (s_name s) ''%belt%'' \<and> name_contains ''belt'' s)
   \<and> ''m4'' \<notin> row_id ` set (find_mechanics_within_radius grid_metres shops_db 34.0522
                               (-118.2437) 1 (Some ''belt''))"
proof -
  let ?R = "find_mechanics_within_radius grid_metres shops_db 34.0522 (-118.2437) 1
              (Some ''belt'')"
  note T = listed_only_if_active_verified_available
             [of grid_metres shops_db "34.0522" "-118.2437" 1 "Some ''belt''"]
  have r: "belt_row \<in> set ?R" unfolding shops_belt_search by simp
  have p: "plain_filter ''belt''" by (simp add: plain_filter_def like_special_def)
  from T r obtain m ms s where
    a: "m \<in> set (mechanics shops_db)" "ms \<in> set (mechanic_services shops_db)"
       "s \<in> set (services shops_db)"
       "m_is_active m = Some True" "m_is_verified m = Some True"
       "ms_mechanic_id ms = m_id m" "ms_is_available ms = Some True"
       "s_id s = ms_service_id ms" and
    i: "m_id m = row_id belt_row" and
    l: "\<forall>t. Some ''belt'' = Some t \<longrightarrow>
          ilike (s_name s) (''%'' @ t @ ''%'') \<and> (plain_filter t \<longrightarrow> name_contains t s)"
    by blast
  from i have i': "m_id m = ''m2''" by (simp add: belt_row_def)
  from l p have l': "ilike (s_name s) ''%belt%''" "name_contains ''belt'' s" by simp_all
  from a i' l' have first:
    "\<exists>m ms s. m \<in> set (mechanics shops_db) \<and> ms \<in> set (mechanic_services shops_db)
       \<and> s \<in> set (services shops_db)
       \<and> m_id m = ''m2'' \<and> m_is_active m = Some True \<and> m_is_verified m = Some True
       \<and> ms_mechanic_id ms = m_id m \<and> ms_is_available ms = Some True
       \<and> s_id s = ms_service_id ms
       \<and> ilike (s_name s) ''%belt%'' \<and> name_contains ''belt'' s"
    by blast
  have d: "distinct (map m_id (mechanics shops_db))" unfolding shops_ids by simp
  have v: "m_is_active new_garage \<noteq> Some True \<or> m_is_verified new_garage \<noteq> Some True"
    by (simp add: new_garage_def mechanic_defaults_def update_mechanic_location_def)
  from T d new_garage_in v have "m_id new_garage \<notin> row_id ` set ?R" by blast
  then have "''m4'' \<notin> row_id ` set ?R"
    by (simp add: new_garage_def mechanic_defaults_def update_mechanic_location_def)
  with first show ?thesis by blast
qed

text \<open>
  Claim C4, as stated, fails: the rows are ordered by the rounded distance, so two shops
  whose distances round to the same value can come in either order. In the example the
  shop 4.4528 meters away is listed before the shop at 0 meters; both report 0.00 miles.
\<close>

theorem rounded_ties_counterexample:
  "map (mechanic_distance grid_metres shops_db 34.0522 (-118.2437))
     (map row_id (find_mechanics_within_radius grid_metres shops_db 34.0522 (-118.2437) 1 None))
     = [Some (2783 / 625), Some 0]"
  by code_simp

text \<open>
  Claim C4, amended. The rows are in non-decreasing order of the distance they report,
  \<^verbatim>\<open>distance_miles\<close>, which is never NULL and is the geodesic distance of the mechanic's
  location in meters, times 0.000621371, rounded to two decimals. (Rows that report the
  same value come in an order the statement leaves open.)
\<close>

theorem ordered_by_reported_distance:
  "(\<exists>ds. map distance_miles
            (find_mechanics_within_radius geodesic db search_lat search_lng radius_miles
               service_filter) = map Some ds
         \<and> sorted ds)
   \<and> (\<forall>r \<in> set (find_mechanics_within_radius geodesic db search_lat search_lng radius_miles
                    service_filter).
        \<exists>m loc. m \<in> set (mechanics db) \<and> m_id m = row_id r \<and> m_location m = Some loc
          \<and> distance_miles r
              = Some (sql_round
                        (geodesic loc (ST_MakePoint search_lng search_lat) * 0.000621371) 2))"
proof
  let ?R = "find_mechanics_within_radius geodesic db search_lat search_lng radius_miles
              service_filter"
  have some: "\<forall>r \<in> set ?R. \<exists>d. distance_miles r = Some d"
    using find_row_mechanic by blast
  have "sorted (map (\<lambda>r. nulls_last (distance_miles r)) ?R)"
    unfolding find_mechanics_within_radius_def Let_def by (rule sorted_sort_key)
  with some show "\<exists>ds. map distance_miles ?R = map Some ds \<and> sorted ds"
    by (rule sorted_nulls_last)
next
  show "\<forall>r \<in> set (find_mechanics_within_radius geodesic db search_lat search_lng radius_miles
                    service_filter).
        \<exists>m loc. m \<in> set (mechanics db) \<and> m_id m = row_id r \<and> m_location m = Some loc
          \<and> distance_miles r
              = Some (sql_round
                        (geodesic loc (ST_MakePoint search_lng search_lat) * 0.000621371) 2)"
  proof
    fix r
    assume "r \<in> set (find_mechanics_within_radius geodesic db search_lat search_lng
                       radius_miles service_filter)"
    from find_row_mechanic[OF this]
    show "\<exists>m loc. m \<in> set (mechanics db) \<and> m_id m = row_id r \<and> m_location m = Some loc
          \<and> distance_miles r
              = Some (sql_round
                        (geodesic loc (ST_MakePoint search_lng search_lat) * 0.000621371) 2)"
      by metis
  qed
qed

text \<open>The example search: its reported distances are sorted, and the first row's is derived
  from the location of the shop \<^verbatim>\<open>m1\<close>.\<close>

theorem ordered_by_reported_distance_witness:
  "(\<exists>ds. map distance_miles
            (find_mechanics_within_radius grid_metres shops_db 34.0522 (-118.2437) 1 None)
            = map Some ds
         \<and> sorted ds)
   \<and> (\<exists>m loc. m \<in> set (mechanics shops_db) \<and> m_id m = ''m1'' \<and> m_location m = Some loc
         \<and> distance_miles uptown_row
             = Some (sql_round
                       (grid_metres loc (ST_MakePoint (-118.2437) 34.0522) * 0.000621371) 2))"
proof -
  note T = ordered_by_reported_distance [of grid_metres shops_db "34.0522" "-118.2437" 1 None]
  have r: "uptown_row
             \<in> set (find_mechanics_within_radius grid_metres shops_db 34.0522 (-118.2437) 1 None)"
    unfolding shops_search by simp
  from T r have
    "\<exists>m loc. m \<in> set (mechanics shops_db) \<and> m_id m = row_id uptown_row
       \<and> m_location m = Some loc
       \<and> distance_miles uptown_row
           = Some (sql_round
                     (grid_metres loc (ST_MakePoint (-118.2437) 34.0522) * 0.000621371) 2)"
    by blast
  then have
    "\<exists>m loc. m \<in> set (mechanics shops_db) \<and> m_id m = ''m1'' \<and> m_location m = Some loc
       \<and> distance_miles uptown_row
           = Some (sql_round
                     (grid_metres loc (ST_MakePoint (-118.2437) 34.0522) * 0.000621371) 2)"
    by (simp add: uptown_row_def)
  with T show ?thesis by blast
qed

text \<open>
  Claim C9. A mechanic whose location is NULL has no row in the result of
  \<^verbatim>\<open>find_mechanics_within_radius\<close>, for every search point, radius and filter (\<^verbatim>\<open>id\<close>
  being the primary key of mechanics). By \<open>update_mechanic_location_null\<close> the trigger
  leaves the location NULL exactly when the written row has a NULL location and a NULL
  latitude or longitude.
\<close>

theorem null_location_never_listed:
  assumes "distinct (map m_id (mechanics db))"
    and "m \<in> set (mechanics db)"
    and "m_location m = None"
  shows "m_id m \<notin> row_id ` set (find_mechanics_within_radius geodesic db search_lat search_lng
                                    radius_miles service_filter)"
proof
  assume "m_id m \<in> row_id ` set (find_mechanics_within_radius geodesic db search_lat search_lng
                                    radius_miles service_filter)"
  then obtain r where
    r: "r \<in> set (find_mechanics_within_radius geodesic db search_lat search_lng radius_miles
                    service_filter)" and
    i: "m_id m = row_id r"
    by blast
  from find_row_mechanic[OF r] obtain m' loc where
    m': "m' \<in> set (mechanics db)" "row_id r = m_id m'" "m_location m' = Some loc"
    by blast
  from distinct_map_eq[OF assms(1,2) m'(1)] i m'(2) have "m = m'" by simp
  with assms(3) m'(3) show False by simp
qed

text \<open>
  The example shop written without a latitude is active and verified and offers an
  available service, its location is NULL, and the search does not return it.
\<close>

theorem null_location_never_listed_witness:
  "distinct (map m_id (mechanics shops_db))
   \<and> no_address_garage \<in> set (mechanics shops_db)
   \<and> m_location no_address_garage = None
   \<and> m_is_active no_address_garage = Some True
   \<and> m_is_verified no_address_garage = Some True
   \<and> ''m3'' \<notin> row_id ` set (find_mechanics_within_radius grid_metres shops_db 34.0522
                               (-118.2437) 1 None)"
proof -
  have d: "distinct (map m_id (mechanics shops_db))" unfolding shops_ids by simp
  have f: "m_location no_address_garage = None" "m_is_active no_address_garage = Some True"
    "m_is_verified no_address_garage = Some True" "m_id no_address_garage = ''m3''"
    by (simp_all add: no_address_garage_def verified_shop_def mechanic_defaults_def
        update_mechanic_location_def)
  from null_location_never_listed
         [OF d no_address_in f(1), of grid_metres "34.0522" "-118.2437" 1 None]
  have "''m3'' \<notin> row_id ` set (find_mechanics_within_radius grid_metres shops_db 34.0522
                                 (-118.2437) 1 None)"
    unfolding f(4) .
  with d no_address_in f show ?thesis by blast
qed

section \<open>The routes of \<^verbatim>\<open>mechanics.ts\<close>\<close>

text \<open>
  What the route does with the coordinates: a request whose latitude or longitude is
  absent or empty is answered with status 400 and no statement is executed; for every
  other request the statement is executed once, with the coordinates as
  \<^verbatim>\<open>parseFloat\<close> reads them, and the answer is not 400.
\<close>

lemma nearby_checks_presence_only:
  "(falsy (latitude q) \<or> falsy (longitude q) \<longrightarrow>
      nearby run q = (Response 400 (Failure ''Latitude and longitude are required''), []))
   \<and> (\<not> (falsy (latitude q) \<or> falsy (longitude q)) \<longrightarrow>
        status (fst (nearby run q)) \<noteq> 400
        \<and> snd (nearby run q)
            = [[parseFloat (to_string (latitude q)), parseFloat (to_string (longitude q)),
                parseInt (case radius q of None \<Rightarrow> ''10'' | Some r \<Rightarrow> r)]])"
proof (cases "falsy (latitude q) \<or> falsy (longitude q)")
  case True
  then have "nearby run q = (Response 400 (Failure ''Latitude and longitude are required''), [])"
    by (simp add: nearby_def)
  with True show ?thesis by simp
next
  case False
  let ?params = "[parseFloat (to_string (latitude q)), parseFloat (to_string (longitude q)),
                  parseInt (case radius q of None \<Rightarrow> ''10'' | Some r \<Rightarrow> r)]"
  have "status (fst (nearby run q)) \<noteq> 400 \<and> snd (nearby run q) = [?params]"
  proof (cases "run ?params")
    case (Inl err)
    with False show ?thesis by (simp add: nearby_def Let_def)
  next
    case (Inr rows)
    with False show ?thesis by (simp add: nearby_def Let_def)
  qed
  with False show ?thesis by simp
qed

text \<open>
  The script's server rejects a request exactly when a coordinate is absent or empty
  or compares as out of range, and then executes no statement. A coordinate that is no
  number compares as in range, so it passes that check as well.
\<close>

lemma server_nearby_rejects:
  "snd (server_nearby run q) = []
     \<longleftrightarrow> falsy (latitude q) \<or> falsy (longitude q)
         \<or> js_less (parseFloat (to_string (latitude q))) (Num (- 90))
         \<or> js_less (Num 90) (parseFloat (to_string (latitude q)))
         \<or> js_less (parseFloat (to_string (longitude q))) (Num (- 180))
         \<or> js_less (Num 180) (parseFloat (to_string (longitude q)))"
  by (simp add: server_nearby_def Let_def split: sum.splits)

lemma unparsed_latitude_reaches_query:
  "snd (nearby no_mechanics unparsed_latitude_request) = [[NaN, Num (-118.2437), Num 10]]"
  "snd (server_nearby no_mechanics unparsed_latitude_request)
     = [[NaN, Num (-118.2437), Num 10]]"
  by (simp_all add: nearby_def server_nearby_def Let_def falsy_def to_string_def
      no_mechanics_def unparsed_latitude_request_def parse_examples)

text \<open>
  Claim C1. The route of \<^verbatim>\<open>mechanics.ts\<close> does not do what the claim says: a latitude of
  91, and a latitude that is no number with a longitude of 200, reach the statement, and
  the response is 200 or 500 as the database answers or fails. The handler of the same
  endpoint in the script's server answers both requests with 400 and executes no
  statement.
\<close>

theorem out_of_range_coordinates_reach_query:
  "snd (nearby no_mechanics out_of_range_request) = [[Num 91, Num (-118.2437), Num 10]]
   \<and> status (fst (nearby no_mechanics out_of_range_request)) = 200
   \<and> snd (nearby query_error out_of_range_request) = [[Num 91, Num (-118.2437), Num 10]]
   \<and> status (fst (nearby query_error out_of_range_request)) = 500
   \<and> snd (nearby no_mechanics malformed_request) = [[NaN, Num 200, Num 10]]
   \<and> status (fst (nearby no_mechanics malformed_request)) = 200
   \<and> server_nearby no_mechanics out_of_range_request
       = (Response 400
            (Failure ''Invalid coordinates. Latitude: -90 to 90, Longitude: -180 to 180''),
          [])
   \<and> server_nearby no_mechanics malformed_request
       = (Response 400
            (Failure ''Invalid coordinates. Latitude: -90 to 90, Longitude: -180 to 180''),
          [])"
  by (simp add: nearby_def server_nearby_def Let_def falsy_def to_string_def no_mechanics_def
      query_error_def malformed_request_def out_of_range_request_def parse_examples)

text \<open>
  Claim C8, as stated, fails: no radius is rejected. The radii 0, -5 and \<^verbatim>\<open>abc\<close> reach the
  statement as 0, -5 and not-a-number.
\<close>

theorem radius_not_validated_counterexample:
  "snd (nearby no_mechanics (request_with_radius (Some ''0'')))
     = [[Num 34.0522, Num (-118.2437), Num 0]]
   \<and> status (fst (nearby no_mechanics (request_with_radius (Some ''0'')))) = 200
   \<and> snd (nearby no_mechanics (request_with_radius (Some ''-5'')))
       = [[Num 34.0522, Num (-118.2437), Num (-5)]]
   \<and> snd (nearby no_mechanics (request_with_radius (Some ''abc'')))
       = [[Num 34.0522, Num (-118.2437), NaN]]"
  by (simp add: nearby_def Let_def falsy_def to_string_def no_mechanics_def
      request_with_radius_def parse_examples)

text \<open>
  Claim C8, amended. When both coordinates are present, the statement is executed with
  the radius 10 when the request gives none, and else with the radius as
  \<^verbatim>\<open>parseInt(radius, 10)\<close> reads it (not-a-number for text that does not start with a
  number, zero and negative numbers as they are); the route rejects no radius.
\<close>

theorem nearby_radius_passed_unchecked:
  assumes "\<not> falsy (latitude q)" and "\<not> falsy (longitude q)"
  shows "snd (nearby run q)
           = [[parseFloat (to_string (latitude q)), parseFloat (to_string (longitude q)),
               (case radius q of None \<Rightarrow> Num 10 | Some r \<Rightarrow> parseInt r)]]
         \<and> status (fst (nearby run q)) \<noteq> 400"
  using assms by (simp add: nearby_def Let_def parse_examples split: sum.splits option.splits)

text \<open>A request with no radius, and one with the radius -5.\<close>

theorem nearby_radius_passed_unchecked_witness:
  "\<not> falsy (latitude (request_with_radius None))
   \<and> \<not> falsy (longitude (request_with_radius None))
   \<and> snd (nearby no_mechanics (request_with_radius None))
       = [[Num 34.0522, Num (-118.2437), Num 10]]
   \<and> snd (nearby no_mechanics (request_with_radius (Some ''-5'')))
       = [[Num 34.0522, Num (-118.2437), Num (-5)]]"
proof -
  have a: "\<not> falsy (latitude (request_with_radius r))"
    and b: "\<not> falsy (longitude (request_with_radius r))" for r
    by (simp_all add: falsy_def request_with_radius_def)
  from nearby_radius_passed_unchecked [of "request_with_radius None" no_mechanics, OF a b]
       nearby_radius_passed_unchecked
         [of "request_with_radius (Some ''-5'')" no_mechanics, OF a b]
       a [of None] b [of None]
  show ?thesis by (simp add: to_string_def request_with_radius_def parse_examples)
qed

text \<open>
  Claim C10. For a mechanic that is active (\<^verbatim>\<open>id\<close> being the primary key), the route
  \<^verbatim>\<open>GET /api/mechanics/:id\<close>, when the database answers the statement, responds 200 with
  the mechanic's row and the distinct names of the services of all its offerings:
  neither the offering's availability nor the service's active flag nor the mechanic's
  verified flag is read. The list is NULL exactly when the mechanic has no offering.
\<close>

theorem get_mechanic_returns_active:
  assumes "distinct (map m_id (mechanics db))"
    and "m \<in> set (mechanics db)"
    and "m_is_active m = Some True"
  shows "\<exists>names.
           get_mechanic (\<lambda>i. Inr (mechanic_by_id db i)) (m_id m)
             = (Response 200 (Success \<lparr>md_mechanic = m, md_services = names\<rparr>), [m_id m])
           \<and> (names = None \<longleftrightarrow> offered_names db m = [])
           \<and> (\<forall>ns. names = Some ns \<longrightarrow> distinct ns \<and> set ns = set (offered_names db m))"
proof -
  have "filter (\<lambda>y. m_id y = m_id m \<and> sql_is_true (m_is_active y)) (mechanics db)
          = filter (\<lambda>y. sql_is_true (m_is_active y))
              (filter (\<lambda>y. m_id y = m_id m) (mechanics db))"
    by (simp add: conj_commute)
  also have "\<dots> = [m]"
    using filter_distinct_key[OF assms(1,2)] assms(3) by (simp add: sql_is_true_def)
  finally have rows:
    "mechanic_by_id db (m_id m)
       = [\<lparr>md_mechanic = m, md_services = array_agg_distinct (left_join_names db m)\<rparr>]"
    by (simp add: mechanic_by_id_def)
  let ?names = "array_agg_distinct (left_join_names db m)"
  have g: "get_mechanic (\<lambda>i. Inr (mechanic_by_id db i)) (m_id m)
          = (Response 200 (Success \<lparr>md_mechanic = m, md_services = ?names\<rparr>), [m_id m])"
    by (simp add: get_mechanic_def rows)
  have "case ?names of
          None \<Rightarrow> offered_names db m = []
        | Some ns \<Rightarrow> ns \<noteq> [] \<and> distinct ns \<and> set ns = set (offered_names db m)"
    using array_agg_distinct_names[of "left_join_names db m"]
    by (simp only: left_join_names_some)
  then have n: "?names = None \<longleftrightarrow> offered_names db m = []"
    "\<forall>ns. ?names = Some ns \<longrightarrow> distinct ns \<and> set ns = set (offered_names db m)"
    by (auto split: option.splits)
  from g n have
    "get_mechanic (\<lambda>i. Inr (mechanic_by_id db i)) (m_id m)
       = (Response 200 (Success \<lparr>md_mechanic = m, md_services = ?names\<rparr>), [m_id m])
     \<and> (?names = None \<longleftrightarrow> offered_names db m = [])
     \<and> (\<forall>ns. ?names = Some ns \<longrightarrow> distinct ns \<and> set ns = set (offered_names db m))"
    by (intro conjI)
  then show ?thesis by (rule exI)
qed

text \<open>
  The example shop that is not verified, and offers one service that is available and
  one that is not, is returned with both names; the mechanic without offerings is
  returned with a NULL list.
\<close>

theorem get_mechanic_returns_active_witness:
  "m_is_verified new_garage = Some False
   \<and> (\<exists>ns. get_mechanic (\<lambda>i. Inr (mechanic_by_id shops_db i)) ''m4''
             = (Response 200 (Success \<lparr>md_mechanic = new_garage, md_services = Some ns\<rparr>),
                [''m4''])
           \<and> distinct ns \<and> set ns = {''Oil Change'', ''Belt Replacement''})
   \<and> get_mechanic (\<lambda>i. Inr (mechanic_by_id solo_db i)) ''m9''
       = (Response 200 (Success \<lparr>md_mechanic = solo_garage, md_services = None\<rparr>), [''m9''])"
proof -
  have d: "distinct (map m_id (mechanics shops_db))" unfolding shops_ids by simp
  have f: "m_is_active new_garage = Some True" "m_is_verified new_garage = Some False"
    "m_id new_garage = ''m4''"
    by (simp_all add: new_garage_def mechanic_defaults_def update_mechanic_location_def)
  have o: "offered_names shops_db new_garage = [''Oil Change'', ''Belt Replacement'']"
    by code_simp
  from get_mechanic_returns_active[OF d new_garage_in f(1)] obtain names where
    n: "get_mechanic (\<lambda>i. Inr (mechanic_by_id shops_db i)) (m_id new_garage)
          = (Response 200 (Success \<lparr>md_mechanic = new_garage, md_services = names\<rparr>),
             [m_id new_garage])"
       "names = None \<longleftrightarrow> offered_names shops_db new_garage = []"
       "\<forall>ns. names = Some ns
            \<longrightarrow> distinct ns \<and> set ns = set (offered_names shops_db new_garage)"
    by blast
  from n(2) o obtain ns where ns: "names = Some ns" by auto
  with n(3) o have "distinct ns" "set ns = {''Oil Change'', ''Belt Replacement''}" by auto
  with n(1) ns f(3) have first:
    "\<exists>ns. get_mechanic (\<lambda>i. Inr (mechanic_by_id shops_db i)) ''m4''
             = (Response 200 (Success \<lparr>md_mechanic = new_garage, md_services = Some ns\<rparr>),
                [''m4''])
           \<and> distinct ns \<and> set ns = {''Oil Change'', ''Belt Replacement''}"
    by auto
  have d': "distinct (map m_id (mechanics solo_db))"
    by (simp add: solo_db_def insert_mechanic_def empty_database_def
        update_mechanic_location_keeps)
  have i': "solo_garage \<in> set (mechanics solo_db)"
    by (simp add: solo_db_def solo_garage_def insert_mechanic_def)
  have f': "m_is_active solo_garage = Some True" "m_id solo_garage = ''m9''"
    by (simp_all add: solo_garage_def mechanic_defaults_def update_mechanic_location_def)
  have o': "offered_names solo_db solo_garage = []"
    by (simp add: offered_names_def solo_db_def insert_mechanic_def empty_database_def)
  from get_mechanic_returns_active[OF d' i' f'(1)] o' f'(2)
  have "get_mechanic (\<lambda>i. Inr (mechanic_by_id solo_db i)) ''m9''
       = (Response 200 (Success \<lparr>md_mechanic = solo_garage, md_services = None\<rparr>), [''m9''])"
    by auto
  with first f(2) show ?thesis by blast
qed

section \<open>The service catalog of \<^verbatim>\<open>services.ts\<close>\<close>

text \<open>
  Claim C7, as stated, fails in its order: the rows are ordered by the canonical name,
  not the resolved one. In Spanish the catalog lists, within the category Repair,
  \<^verbatim>\<open>Servicio de Aire Acondicionado\<close> (AC Service) before \<^verbatim>\<open>Reemplazo de Correa\<close> (Belt
  Replacement).
\<close>

theorem resolved_name_order_counterexample:
  "map resolved_order (services_query id catalog_db ''es'')
     = [(Some ''Maintenance'', Some ''Cambio de Aceite''),
        (Some ''Repair'', Some ''Servicio de Aire Acondicionado''),
        (Some ''Repair'', Some ''Reemplazo de Correa'')]
   \<and> ''Reemplazo de Correa'' < ''Servicio de Aire Acondicionado''"
  by code_simp

text \<open>
  Claim C7, amended. With at most one translation per service and language (the table's
  UNIQUE constraint), for every language code the route, when the database answers the
  statement, responds 200 with exactly the active services, each once, with the name of
  the translation into that language when there is one and the canonical name
  otherwise, and the translation's description when there is a translation with a
  description and the canonical description otherwise; the rows are ordered by
  category and then by the canonical name (the column \<^verbatim>\<open>s.name\<close>), under the database's
  collation, with a NULL category last.
\<close>

theorem services_in_canonical_order:
  assumes "distinct (map translation_key (service_translations db))"
  shows "\<exists>ss. get_services (\<lambda>l. Inr (services_query collate db l)) (Some lang)
                = (Response 200
                     (Success \<lparr>sd_services = map (resolved_row db lang) ss,
                               sd_language = lang\<rparr>),
                   [lang])
              \<and> mset ss = mset (filter (\<lambda>s. s_is_active s = Some True) (services db))
              \<and> sorted (map (canonical_order collate) ss)"
proof -
  let ?pair = "\<lambda>s. (s, translation_of db lang s)"
  let ?act = "filter (\<lambda>s. s_is_active s = Some True) (services db)"
  let ?ss = "sort_key (canonical_order collate) ?act"
  have key: "(\<lambda>s. service_order collate (?pair s)) = canonical_order collate"
    by (simp add: fun_eq_iff service_order_def canonical_order_def)
  have "filter (\<lambda>row. sql_is_true (s_is_active (fst row))) (translation_join db lang)
          = map ?pair ?act"
    by (simp add: translation_join_unique[OF assms] filter_map comp_def sql_is_true_def)
  moreover have "sort_key (service_order collate) (map ?pair ?act) = map ?pair ?ss"
    by (simp only: sort_key_map key)
  ultimately have "services_query collate db lang = map (resolved_row db lang) ?ss"
    by (simp add: services_query_def service_select_resolved comp_def)
  then have "get_services (\<lambda>l. Inr (services_query collate db l)) (Some lang)
                = (Response 200
                     (Success \<lparr>sd_services = map (resolved_row db lang) ?ss,
                               sd_language = lang\<rparr>),
                   [lang])"
    by (simp add: get_services_def)
  moreover have "mset ?ss = mset ?act" by simp
  moreover have "sorted (map (canonical_order collate) ?ss)" by (rule sorted_sort_key)
  ultimately show ?thesis by blast
qed

text \<open>The example catalog in Spanish, under the byte order of the names.\<close>

theorem services_in_canonical_order_witness:
  "distinct (map translation_key (service_translations catalog_db))
   \<and> (\<exists>ss. get_services (\<lambda>l. Inr (services_query id catalog_db l)) (Some ''es'')
             = (Response 200
                  (Success \<lparr>sd_services = map (resolved_row catalog_db ''es'') ss,
                            sd_language = ''es''\<rparr>),
                [''es''])
           \<and> mset ss = mset [oil_change, belt_replacement, ac_service]
           \<and> sorted (map (canonical_order id) ss))"
proof -
  have d: "distinct (map translation_key (service_translations catalog_db))"
    by (simp add: catalog_db_def empty_database_def translation_def translation_key_def)
  have a: "filter (\<lambda>s. s_is_active s = Some True) (services catalog_db)
             = [oil_change, belt_replacement, ac_service]"
    by (simp add: catalog_db_def empty_database_def oil_change_def belt_replacement_def
        ac_service_def towing_def)
  from services_in_canonical_order[OF d, of id "''es''"] d show ?thesis
    unfolding a by blast
qed

section \<open>The rating trigger\<close>

text \<open>
  Claim C5. After an insert or update of a review the owning mechanic's rating is the
  mean of its published reviews rounded to two decimals and its review count is their
  number (\<open>insert_review_recomputes\<close>, \<open>update_review_recomputes\<close>), and the reviews 5
  and then 3 give 5.00 with 1 and 4.00 with 2 (\<open>rating_examples\<close>). The last part of the claim, that an
  unpublished review changes neither value, does not hold for a mechanic without
  published reviews: its rating is 0.0, the column's default, and inserting an
  unpublished review makes it NULL.
\<close>

theorem unpublished_review_changes_rating:
  "rating_of (Inr shops_db) ''m2'' = Some (Some 0, Some 0)
   \<and> rating_of (insert_review shops_db (review_of ''r1'' ''m2'' 4 False)) ''m2''
       = Some (None, Some 0)"
  by code_simp

text \<open>
  Claim C6. The rating of a mechanic with no published review has two values: a
  mechanic that never had a review has the column's default 0.0, and a mechanic whose
  only review was published and then unpublished has NULL, the value the trigger
  computes over no rows (with the review count 0).
\<close>

theorem rating_null_after_recompute_over_no_reviews:
  "m_rating (mechanic_defaults ''m2'' ''Downtown Auto'' (Some 34.0522) (Some (-118.2437)))
     = Some 0
   \<and> rating_of (then_update (insert_review shops_db (review_of ''r1'' ''m2'' 5 True))
                  (review_of ''r1'' ''m2'' 5 False)) ''m2''
       = Some (None, Some 0)"
  by code_simp

end
